theory Spec2Isabelle
  imports Main "HOL-Library.Word"
begin

section \<open>PipeCopy.c: one process's run of \<open>main\<close>\<close>

text \<open>
  The program creates a pipe and forks twice. Every one of the (up to) three processes
  executes the same function \<open>main\<close>; which block of \<open>main\<close> a process runs is decided by
  the values \<open>fork\<close> returned to it. The model below is the run of \<open>main\<close> in one process:
  the answers of the operating system are given by an environment \<open>env\<close>, and the process
  state \<open>proc\<close> records the system and library calls made so far, in order, together with
  \<open>errno\<close>. For a child, the calls before its creating \<open>fork\<close> are the ones of the parent
  whose memory image it inherits.
\<close>

subsection \<open>Data\<close>

type_synonym byte = "8 word"

text \<open>What a \<open>read\<close> call finds: an error with its \<open>errno\<close>, or the bytes available.\<close>

datatype read_outcome = ReadError int | ReadData "byte list"

text \<open>The two ways the program opens a file (lines 97 and 125).\<close>

datatype oflag =
    O_RDONLY
  | O_WRONLY_CREAT_TRUNC nat

text \<open>
  The lines the program prints, one constructor per format string, carrying the
  format's arguments (an \<open>errno\<close> stands for the text \<open>strerror(errno)\<close>).
\<close>

datatype msg =
    MsgPipeFailed                  \<comment> \<open>ERROR: Pipe creation failed.\<close>
  | MsgChildOK nat                 \<comment> \<open>SUCCESS: Child %d finished normally.\<close>
  | MsgChildFailed nat int         \<comment> \<open>ERROR: Child %d finished abnormally with status %d\<close>
  | MsgAllOK                       \<comment> \<open>SUCCESS: All children are terminated normally.\<close>
  | MsgSomeFailed                  \<comment> \<open>ERROR: One or more child finished abnormally. Operation failed.\<close>
  | MsgOpenSrcFailed string int    \<comment> \<open>ERROR: Unable to open source file "%s" (%s)\<close>
  | MsgOpenDestFailed string int   \<comment> \<open>ERROR: Unable to open destination file "%s" (%s)\<close>
  | MsgCopyFailed int              \<comment> \<open>ERROR: error while copying: %s\<close>
  | MsgForkFailed                  \<comment> \<open>ERROR: Unable to for process!\<close>
  | MsgProgress int int            \<comment> \<open>[%d] %d bytes copied...\<close>

datatype event =
    EPipe int int int              \<comment> \<open>\<open>pipe(fd)\<close>: return value, \<open>fd[0]\<close>, \<open>fd[1]\<close>\<close>
  | EFork int                      \<comment> \<open>\<open>fork()\<close>: return value in this process\<close>
  | EClose int                     \<comment> \<open>\<open>close(fd)\<close>\<close>
  | EWait int int                  \<comment> \<open>\<open>wait(&status)\<close>: return value, raw status\<close>
  | EOpen string oflag int         \<comment> \<open>\<open>open(path, flags)\<close>: return value\<close>
  | ERead int nat int              \<comment> \<open>\<open>read(fd, buffer, count)\<close>: return value\<close>
  | EWrite int "byte list"         \<comment> \<open>\<open>write(fd, buffer, n)\<close>: the \<open>n\<close> bytes handed over\<close>
  | EStdout msg                    \<comment> \<open>\<open>printf\<close>\<close>
  | EStderr msg                    \<comment> \<open>\<open>fprintf(stderr, ...)\<close>\<close>

text \<open>
  The operating system as seen by one process. \<open>fork2_ret\<close> is consulted only if the
  process calls \<open>fork\<close> a second time; \<open>waits k\<close> is the pid returned by the \<open>k\<close>-th
  \<open>wait\<close> and the value \<open>status\<close> holds after it; \<open>reads k\<close> is what the \<open>k\<close>-th
  \<open>read\<close> finds; \<open>stack_garbage\<close> is the content of the uninitialised \<open>buffer\<close>.
\<close>

record env =
  argv1 :: string
  argv2 :: string
  pipe_ret :: int
  fd0 :: int
  fd1 :: int
  fork1_ret :: int
  fork2_ret :: int
  waits :: "nat \<Rightarrow> int \<times> int"
  open_ret :: int
  open_errno :: int
  reads :: "nat \<Rightarrow> read_outcome"
  stack_garbage :: "byte list"

record proc =
  trace :: "event list"
  errno :: int
  nread :: nat
  nwait :: nat

definition proc_init :: proc where
  "proc_init = \<lparr>trace = [], errno = 0, nread = 0, nwait = 0\<rparr>"

subsection \<open>System and library calls\<close>

definition emit :: "event \<Rightarrow> proc \<Rightarrow> proc" where
  "emit ev s = s\<lparr>trace := trace s @ [ev]\<rparr>"

definition sys_pipe :: "env \<Rightarrow> proc \<Rightarrow> int \<times> proc" where
  "sys_pipe e s = (pipe_ret e, emit (EPipe (pipe_ret e) (fd0 e) (fd1 e)) s)"

definition sys_fork :: "int \<Rightarrow> proc \<Rightarrow> int \<times> proc" where
  "sys_fork r s = (r, emit (EFork r) s)"

definition sys_close :: "int \<Rightarrow> proc \<Rightarrow> proc" where
  "sys_close fd s = emit (EClose fd) s"

definition sys_wait :: "env \<Rightarrow> proc \<Rightarrow> int \<times> int \<times> proc" where
  "sys_wait e s =
     (fst (waits e (nwait s)), snd (waits e (nwait s)),
      (emit (EWait (fst (waits e (nwait s))) (snd (waits e (nwait s)))) s)\<lparr>nwait := Suc (nwait s)\<rparr>)"

text \<open>\<open>open\<close> returns a descriptor, or a negative value with \<open>errno\<close> set.\<close>

definition sys_open :: "env \<Rightarrow> string \<Rightarrow> oflag \<Rightarrow> proc \<Rightarrow> int \<times> proc" where
  "sys_open e path fl s =
     (open_ret e,
      (emit (EOpen path fl (open_ret e)) s)
        \<lparr>errno := (if open_ret e < 0 then open_errno e else errno s)\<rparr>)"

text \<open>
  \<open>read(fd, buffer, count)\<close> returns \<open>-1\<close> on error and otherwise the number of bytes
  transferred, at most \<open>count\<close>; the bytes overwrite the front of the buffer.
\<close>

definition read_ret :: "nat \<Rightarrow> read_outcome \<Rightarrow> int" where
  "read_ret n out = (case out of ReadError en \<Rightarrow> - 1 | ReadData d \<Rightarrow> int (length (take n d)))"

definition read_data :: "nat \<Rightarrow> read_outcome \<Rightarrow> byte list" where
  "read_data n out = (case out of ReadError en \<Rightarrow> [] | ReadData d \<Rightarrow> take n d)"

definition sys_read :: "env \<Rightarrow> int \<Rightarrow> byte list \<Rightarrow> nat \<Rightarrow> proc \<Rightarrow> int \<times> byte list \<times> proc" where
  "sys_read e fd buffer n s =
     (read_ret n (reads e (nread s)),
      read_data n (reads e (nread s)) @ drop (length (read_data n (reads e (nread s)))) buffer,
      (emit (ERead fd n (read_ret n (reads e (nread s)))) s)
        \<lparr>errno := (case reads e (nread s) of ReadError en \<Rightarrow> en | ReadData d \<Rightarrow> errno s),
         nread := Suc (nread s)\<rparr>)"

text \<open>
  The value \<open>write\<close> returns is discarded by the program (line 168), so the model
  records the call and the bytes handed over. The program reads \<open>errno\<close> only right
  after a failed \<open>open\<close> or after \<open>copy\<close> returned from a failed \<open>read\<close>, so these
  two calls are the ones that set it in the model.
\<close>

definition sys_write :: "int \<Rightarrow> byte list \<Rightarrow> proc \<Rightarrow> proc" where
  "sys_write fd bs s = emit (EWrite fd bs) s"

definition printf :: "msg \<Rightarrow> proc \<Rightarrow> proc" where
  "printf m s = emit (EStdout m) s"

definition fprintf_stderr :: "msg \<Rightarrow> proc \<Rightarrow> proc" where
  "fprintf_stderr m s = emit (EStderr m) s"

text \<open>\<open>WEXITSTATUS\<close> of \<open>sys/wait.h\<close>: bits 8 to 15 of the raw status.\<close>

definition WEXITSTATUS :: "int \<Rightarrow> int" where
  "WEXITSTATUS status = (status div 256) mod 256"

text \<open>Conversion to \<open>int16_t\<close>, the type of \<open>read_count\<close> and of the result of \<open>copy\<close>.\<close>

definition int16_t :: "int \<Rightarrow> int" where
  "int16_t x = sint (word_of_int x :: 16 word)"

definition BLOCK_SIZE :: nat where
  "BLOCK_SIZE = 1024"

text \<open>\<open>S_IRUSR | S_IWUSR | S_IRGRP | S_IWGRP | S_IROTH\<close>, octal 664.\<close>

definition dest_mode :: nat where
  "dest_mode = 436"

subsection \<open>\<open>copy\<close> (lines 160 to 172)\<close>

text \<open>
  The \<open>while\<close> loop; \<open>buffer\<close> is the local array, \<open>r\<close> the value of \<open>read\<close> and
  \<open>int16_t r\<close> the value stored in \<open>read_count\<close>. The loop need not end (a source may
  deliver data for ever), so the function is partial: \<open>None\<close> stands for a loop that
  never returns.
\<close>

partial_function (option) copy_loop ::
  "env \<Rightarrow> int \<Rightarrow> int \<Rightarrow> int \<Rightarrow> byte list \<Rightarrow> proc \<Rightarrow> (int \<times> proc) option" where
  "copy_loop e src dest pid buffer s =
     (case sys_read e src buffer BLOCK_SIZE s of (r, buffer', s1) \<Rightarrow>
        (if int16_t r > 0
         then copy_loop e src dest pid buffer'
                (sys_write dest (take (nat (int16_t r)) buffer')
                   (printf (MsgProgress pid (int16_t r)) s1))
         else Some (int16_t r, s1)))"

definition copy :: "env \<Rightarrow> int \<Rightarrow> int \<Rightarrow> int \<Rightarrow> proc \<Rightarrow> (int \<times> proc) option" where
  "copy e src dest pid s = copy_loop e src dest pid (stack_garbage e) s"

subsection \<open>\<open>main\<close> (lines 24 to 157)\<close>

text \<open>The loop of lines 50 to 79: \<open>i\<close> counts the iterations, \<open>error\<close> is the flag.\<close>

function wait_loop :: "env \<Rightarrow> int \<Rightarrow> nat \<Rightarrow> bool \<Rightarrow> proc \<Rightarrow> bool \<times> proc" where
  "wait_loop e child_1 i error s =
     (if i < 2 then
        (case sys_wait e s of (done, status0, s1) \<Rightarrow>
           (let status = WEXITSTATUS status0;
                child_number = (if child_1 = done then 1 else 2)
            in if status = 0
               then wait_loop e child_1 (i + 1) error (printf (MsgChildOK child_number) s1)
               else wait_loop e child_1 (i + 1) True
                      (printf (MsgChildFailed child_number status) s1)))
      else (error, s))"
  by pat_completeness auto
termination
  by (relation "measure (\<lambda>(e, child_1, i, error, s). 2 - i)") auto

declare wait_loop.simps [simp del]

text \<open>Lines 43 to 89: the parent after both calls of \<open>fork\<close> returned a child's pid.\<close>

definition parent_block :: "env \<Rightarrow> int \<Rightarrow> proc \<Rightarrow> int \<times> proc" where
  "parent_block e child_1 s =
     (case wait_loop e child_1 0 False (sys_close (fd1 e) (sys_close (fd0 e) s)) of
        (error, s1) \<Rightarrow>
          if \<not> error then (0, printf MsgAllOK s1) else (2, printf MsgSomeFailed s1))"

text \<open>Lines 92 to 117: the block guarded by \<open>child_1 == 0\<close> (reads the file).\<close>

definition child_1_block :: "env \<Rightarrow> proc \<Rightarrow> (int \<times> proc) option" where
  "child_1_block e s =
     (case sys_open e (argv1 e) O_RDONLY (sys_close (fd0 e) s) of (src, s1) \<Rightarrow>
        if src < 0
        then Some (1, sys_close (fd1 e) (printf (MsgOpenSrcFailed (argv1 e) (errno s1)) s1))
        else (case copy e src (fd1 e) 1 s1 of
                None \<Rightarrow> None
              | Some (r, s2) \<Rightarrow>
                  if r < 0
                  then Some (2, sys_close (fd1 e) (sys_close src
                                  (printf (MsgCopyFailed (errno s2)) s2)))
                  else Some (0, sys_close (fd1 e) (sys_close src s2))))"

text \<open>Lines 120 to 145: the block guarded by \<open>child_2 == 0\<close> (writes the file).\<close>

definition child_2_block :: "env \<Rightarrow> proc \<Rightarrow> (int \<times> proc) option" where
  "child_2_block e s =
     (case sys_open e (argv2 e) (O_WRONLY_CREAT_TRUNC dest_mode) (sys_close (fd1 e) s) of
        (dest, s1) \<Rightarrow>
        if dest < 0
        then Some (1, sys_close (fd0 e) (printf (MsgOpenDestFailed (argv2 e) (errno s1)) s1))
        else (case copy e (fd0 e) dest 2 s1 of
                None \<Rightarrow> None
              | Some (r, s2) \<Rightarrow>
                  if r < 0
                  then Some (2, sys_close (fd0 e) (sys_close dest
                                  (printf (MsgCopyFailed (errno s2)) s2)))
                  else Some (0, sys_close (fd0 e) (sys_close dest s2))))"

text \<open>
  \<open>main\<close>: the exit code and the final state of the process, \<open>None\<close> if it never
  returns. Each guarded block of the source returns on all its paths, so the sequence of
  \<open>if\<close> statements is a chain of alternatives.
\<close>

definition main :: "env \<Rightarrow> (int \<times> proc) option" where
  "main e =
     (case sys_pipe e proc_init of (p, s0) \<Rightarrow>
        if p \<noteq> 0 then Some (1, fprintf_stderr MsgPipeFailed s0)
        else
          (case sys_fork (fork1_ret e) s0 of (child_1, s1) \<Rightarrow>
             (case (if child_1 > 0 then sys_fork (fork2_ret e) s1 else (0, s1)) of
                (child_2, s2) \<Rightarrow>
                  if child_2 > 0 then Some (parent_block e child_1 s2)
                  else if child_1 = 0 then child_1_block e s2
                  else if child_2 = 0 then child_2_block e s2
                  else if child_1 < 0 \<or> child_2 < 0 then Some (1, printf MsgForkFailed s2)
                  else Some (0, s2))))"

subsection \<open>Notions used to state the properties\<close>

text \<open>The three calls of one iteration of the copy loop whose \<open>read\<close> is the \<open>j\<close>-th.\<close>

abbreviation block_events :: "env \<Rightarrow> int \<Rightarrow> int \<Rightarrow> int \<Rightarrow> nat \<Rightarrow> event list" where
  "block_events e src dest pid j \<equiv>
     [ERead src BLOCK_SIZE (read_ret BLOCK_SIZE (reads e j)),
      EStdout (MsgProgress pid (read_ret BLOCK_SIZE (reads e j))),
      EWrite dest (read_data BLOCK_SIZE (reads e j))]"

text \<open>The line printed for one reaped child (lines 59 to 78).\<close>

abbreviation child_line :: "int \<Rightarrow> int \<times> int \<Rightarrow> msg" where
  "child_line child_1 w \<equiv>
     (if WEXITSTATUS (snd w) = 0
      then MsgChildOK (if child_1 = fst w then 1 else 2)
      else MsgChildFailed (if child_1 = fst w then 1 else 2) (WEXITSTATUS (snd w)))"

text \<open>The progress notifications of a trace, as pairs of tag and byte count.\<close>

fun progress_of :: "event list \<Rightarrow> (int \<times> int) list" where
  "progress_of [] = []"
| "progress_of (EStdout (MsgProgress p n) # es) = (p, n) # progress_of es"
| "progress_of (ev # es) = progress_of es"

text \<open>The bytes handed to \<open>write\<close> on descriptor \<open>fd\<close>, in order.\<close>

fun written_to :: "int \<Rightarrow> event list \<Rightarrow> byte list" where
  "written_to fd [] = []"
| "written_to fd (EWrite fd' bs # es) = (if fd' = fd then bs else []) @ written_to fd es"
| "written_to fd (ev # es) = written_to fd es"

text \<open>
  The descriptor table of a process after a sequence of calls: \<open>pipe\<close> enters the two
  ends, a successful \<open>open\<close> enters the file (a descriptor number may be reused after
  \<open>close\<close>), \<open>close\<close> removes the entry.
\<close>

datatype fobj = PipeRead | PipeWrite | File string

definition fd_clear :: "int \<Rightarrow> (int \<times> fobj) list \<Rightarrow> (int \<times> fobj) list" where
  "fd_clear fd t = filter (\<lambda>p. fst p \<noteq> fd) t"

fun fd_step :: "(int \<times> fobj) list \<Rightarrow> event \<Rightarrow> (int \<times> fobj) list" where
  "fd_step t (EPipe r a b) =
     (if r = 0 then (b, PipeWrite) # fd_clear b ((a, PipeRead) # fd_clear a t) else t)"
| "fd_step t (EClose fd) = fd_clear fd t"
| "fd_step t (EOpen path fl r) = (if 0 \<le> r then (r, File path) # fd_clear r t else t)"
| "fd_step t ev = t"

definition fds_after :: "event list \<Rightarrow> (int \<times> fobj) list" where
  "fds_after tr = foldl fd_step [] tr"

definition holds :: "event list \<Rightarrow> fobj \<Rightarrow> bool" where
  "holds tr ob = (ob \<in> snd ` set (fds_after tr))"

text \<open>The state in which child 1, respectively child 2, calls \<open>copy\<close> once its file is open.\<close>

abbreviation reader_at_copy :: "env \<Rightarrow> proc" where
  "reader_at_copy e \<equiv>
     \<lparr>trace = [EPipe 0 (fd0 e) (fd1 e), EFork 0, EClose (fd0 e),
               EOpen (argv1 e) O_RDONLY (open_ret e)],
      errno = 0, nread = 0, nwait = 0\<rparr>"

abbreviation writer_at_copy :: "env \<Rightarrow> proc" where
  "writer_at_copy e \<equiv>
     \<lparr>trace = [EPipe 0 (fd0 e) (fd1 e), EFork (fork1_ret e), EFork 0, EClose (fd1 e),
               EOpen (argv2 e) (O_WRONLY_CREAT_TRUNC dest_mode) (open_ret e)],
      errno = 0, nread = 0, nwait = 0\<rparr>"

text \<open>
  A regular file of the given content read from its start: every \<open>read\<close> delivers the
  next \<open>BLOCK_SIZE\<close> bytes, or what is left of the file.
\<close>

definition file_reads :: "byte list \<Rightarrow> nat \<Rightarrow> read_outcome" where
  "file_reads content k = ReadData (take BLOCK_SIZE (drop (k * BLOCK_SIZE) content))"

text \<open>
  A concrete environment: the pipe is descriptors 3 and 4, the children get pids 100 and
  101, child 2 is reaped first, and every \<open>read\<close> finds the end of its input.
\<close>

definition example_env :: env where
  "example_env =
     \<lparr>argv1 = ''in'', argv2 = ''out'', pipe_ret = 0, fd0 = 3, fd1 = 4,
      fork1_ret = 100, fork2_ret = 101,
      waits = (\<lambda>k. if k = 0 then (101, 0) else (100, 512)),
      open_ret = 3, open_errno = 2,
      reads = (\<lambda>k. ReadData []), stack_garbage = []\<rparr>"

section \<open>Auxiliary facts\<close>

subsection \<open>The wait loop\<close>

lemma wait_loop_end: "\<not> i < 2 \<Longrightarrow> wait_loop e c i err s = (err, s)"
  by (subst wait_loop.simps) simp

lemma wait_loop_step:
  "i < 2 \<Longrightarrow> wait_loop e c i err s =
     wait_loop e c (Suc i) (err \<or> WEXITSTATUS (snd (waits e (nwait s))) \<noteq> 0)
       (s\<lparr>trace := trace s @
            [EWait (fst (waits e (nwait s))) (snd (waits e (nwait s))),
             EStdout (child_line c (waits e (nwait s)))],
           nwait := Suc (nwait s)\<rparr>)"
  by (cases s, subst wait_loop.simps) (simp add: sys_wait_def printf_def emit_def Let_def)

lemma wait_loop_twice:
  "wait_loop e c 0 False s =
     (WEXITSTATUS (snd (waits e (nwait s))) \<noteq> 0 \<or>
      WEXITSTATUS (snd (waits e (Suc (nwait s)))) \<noteq> 0,
      s\<lparr>trace := trace s @
            [EWait (fst (waits e (nwait s))) (snd (waits e (nwait s))),
             EStdout (child_line c (waits e (nwait s))),
             EWait (fst (waits e (Suc (nwait s)))) (snd (waits e (Suc (nwait s)))),
             EStdout (child_line c (waits e (Suc (nwait s))))],
           nwait := Suc (Suc (nwait s))\<rparr>)"
  by (cases s) (simp add: wait_loop_step wait_loop_end)

lemma main_parent:
  assumes "pipe_ret e = 0" and "0 < fork1_ret e" and "0 < fork2_ret e"
  shows "main e =
     Some (if WEXITSTATUS (snd (waits e 0)) = 0 \<and> WEXITSTATUS (snd (waits e 1)) = 0
           then 0 else 2,
       \<lparr>trace =
          [EPipe 0 (fd0 e) (fd1 e), EFork (fork1_ret e), EFork (fork2_ret e),
           EClose (fd0 e), EClose (fd1 e),
           EWait (fst (waits e 0)) (snd (waits e 0)),
           EStdout (child_line (fork1_ret e) (waits e 0)),
           EWait (fst (waits e 1)) (snd (waits e 1)),
           EStdout (child_line (fork1_ret e) (waits e 1)),
           EStdout (if WEXITSTATUS (snd (waits e 0)) = 0 \<and> WEXITSTATUS (snd (waits e 1)) = 0
                    then MsgAllOK else MsgSomeFailed)],
        errno = 0, nread = 0, nwait = 2\<rparr>)"
  using assms
  by (simp add: main_def sys_pipe_def sys_fork_def parent_block_def wait_loop_twice
      sys_close_def printf_def emit_def proc_init_def)

subsection \<open>The copy loop\<close>

lemma int16_t_id: "- 32768 \<le> x \<Longrightarrow> x < 32768 \<Longrightarrow> int16_t x = x"
  by (simp add: int16_t_def sint_sbintrunc' signed_take_bit_int_eq_self)

lemma read_ret_range: "- 1 \<le> read_ret BLOCK_SIZE out \<and> read_ret BLOCK_SIZE out \<le> 1024"
  by (cases out) (simp_all add: read_ret_def BLOCK_SIZE_def)

lemma int16_t_read_ret: "int16_t (read_ret BLOCK_SIZE out) = read_ret BLOCK_SIZE out"
  using read_ret_range [of out] by (intro int16_t_id) linarith+

lemma read_ret_data: "0 \<le> read_ret n out \<Longrightarrow> read_ret n out = int (length (read_data n out))"
  by (cases out) (simp_all add: read_ret_def read_data_def)

lemma take_min_length: "take (min (length d) n) d = take n d"
  by (cases "length d \<le> n") (simp_all add: min_def)

lemma copy_loop_stop:
  assumes "read_ret BLOCK_SIZE (reads e (nread s)) \<le> 0"
  shows "copy_loop e src dest pid buffer s =
     Some (read_ret BLOCK_SIZE (reads e (nread s)),
           s\<lparr>trace := trace s @ [ERead src BLOCK_SIZE (read_ret BLOCK_SIZE (reads e (nread s)))],
             errno := (case reads e (nread s) of ReadError en \<Rightarrow> en | ReadData d \<Rightarrow> errno s),
             nread := Suc (nread s)\<rparr>)"
  using assms
  by (cases s, subst copy_loop.simps)
     (simp add: sys_read_def int16_t_read_ret emit_def split: read_outcome.split)

lemma copy_loop_step:
  assumes "0 < read_ret BLOCK_SIZE (reads e (nread s))"
  shows "copy_loop e src dest pid buffer s =
     copy_loop e src dest pid
       (read_data BLOCK_SIZE (reads e (nread s))
          @ drop (length (read_data BLOCK_SIZE (reads e (nread s)))) buffer)
       (s\<lparr>trace := trace s @
            [ERead src BLOCK_SIZE (read_ret BLOCK_SIZE (reads e (nread s))),
             EStdout (MsgProgress pid (read_ret BLOCK_SIZE (reads e (nread s)))),
             EWrite dest (read_data BLOCK_SIZE (reads e (nread s)))],
           nread := Suc (nread s)\<rparr>)"
proof -
  obtain d where d: "reads e (nread s) = ReadData d" and ne: "take BLOCK_SIZE d \<noteq> []"
    using assms by (cases "reads e (nread s)") (auto simp: read_ret_def)
  have i16: "int16_t (int (length (take BLOCK_SIZE d))) = int (length (take BLOCK_SIZE d))"
    using int16_t_read_ret [of "ReadData d"] by (simp add: read_ret_def)
  show ?thesis
    using d ne i16
    by (cases s, subst copy_loop.simps)
       (simp add: sys_read_def read_ret_def read_data_def emit_def sys_write_def printf_def
          take_min_length)
qed

lemma copy_loop_run:
  assumes "\<forall>j<k. 0 < read_ret BLOCK_SIZE (reads e (nread s + j))"
    and "read_ret BLOCK_SIZE (reads e (nread s + k)) \<le> 0"
  shows "copy_loop e src dest pid buffer s =
     Some (read_ret BLOCK_SIZE (reads e (nread s + k)),
           s\<lparr>trace := trace s @ concat (map (block_events e src dest pid) [nread s..<nread s + k])
                     @ [ERead src BLOCK_SIZE (read_ret BLOCK_SIZE (reads e (nread s + k)))],
             errno := (case reads e (nread s + k) of ReadError en \<Rightarrow> en | ReadData d \<Rightarrow> errno s),
             nread := Suc (nread s + k)\<rparr>)"
  using assms
proof (induction k arbitrary: s buffer)
  case 0
  then show ?case by (simp add: copy_loop_stop)
next
  case (Suc k)
  let ?s1 = "s\<lparr>trace := trace s @ block_events e src dest pid (nread s), nread := Suc (nread s)\<rparr>"
  have pos: "0 < read_ret BLOCK_SIZE (reads e (nread s))"
    using Suc.prems(1) by (metis add.right_neutral zero_less_Suc)
  have a: "\<forall>j<k. 0 < read_ret BLOCK_SIZE (reads e (nread ?s1 + j))"
    using Suc.prems(1) by (auto simp: less_Suc_eq_0_disj)
  have b: "read_ret BLOCK_SIZE (reads e (nread ?s1 + k)) \<le> 0"
    using Suc.prems(2) by simp
  have u: "[nread s..<nread s + Suc k] = nread s # [nread ?s1..<nread ?s1 + k]"
    by (simp add: upt_conv_Cons)
  show ?case
    by (subst copy_loop_step [OF pos], subst Suc.IH [OF a b], subst u)
       (simp split: read_outcome.split)
qed

lemma copy_loop_returns:
  assumes "copy_loop e src dest pid buffer s = Some y"
  shows "\<exists>k. read_ret BLOCK_SIZE (reads e (nread s + k)) \<le> 0"
proof (rule copy_loop.raw_induct
    [where P = "\<lambda>e src dest pid buffer s y. \<exists>k. read_ret BLOCK_SIZE (reads e (nread s + k)) \<le> 0",
      OF _ assms], goal_cases)
  case (1 f e src dest pid buffer s y)
  show ?case
  proof (cases "0 < read_ret BLOCK_SIZE (reads e (nread s))")
    case True
    with 1(2) obtain b s1 where "f e src dest pid b s1 = Some y" and "nread s1 = Suc (nread s)"
      by (auto simp: sys_read_def int16_t_read_ret sys_write_def printf_def emit_def)
    with 1(1) obtain k where "read_ret BLOCK_SIZE (reads e (Suc (nread s) + k)) \<le> 0"
      by metis
    then have "read_ret BLOCK_SIZE (reads e (nread s + Suc k)) \<le> 0" by simp
    then show ?thesis by blast
  next
    case False
    then have "read_ret BLOCK_SIZE (reads e (nread s + 0)) \<le> 0" by simp
    then show ?thesis by blast
  qed
qed

lemma first_nonpositive:
  fixes g :: "nat \<Rightarrow> int"
  assumes "g (n + k) \<le> 0"
  shows "\<exists>m. (\<forall>j<m. 0 < g (n + j)) \<and> g (n + m) \<le> 0"
proof -
  let ?m = "LEAST m. g (n + m) \<le> 0"
  have "g (n + ?m) \<le> 0" using assms by (rule LeastI)
  moreover have "\<forall>j<?m. 0 < g (n + j)"
    using not_less_Least [of _ "\<lambda>m. g (n + m) \<le> 0"] by (auto simp: not_le)
  ultimately show ?thesis by blast
qed

lemma copy_loop_Some_iff:
  "copy_loop e src dest pid buffer s = Some (r, s') \<longleftrightarrow>
     (\<exists>k. (\<forall>j<k. 0 < read_ret BLOCK_SIZE (reads e (nread s + j))) \<and>
          read_ret BLOCK_SIZE (reads e (nread s + k)) \<le> 0 \<and>
          r = read_ret BLOCK_SIZE (reads e (nread s + k)) \<and>
          s' = s\<lparr>trace := trace s @ concat (map (block_events e src dest pid) [nread s..<nread s + k])
                     @ [ERead src BLOCK_SIZE (read_ret BLOCK_SIZE (reads e (nread s + k)))],
             errno := (case reads e (nread s + k) of ReadError en \<Rightarrow> en | ReadData d \<Rightarrow> errno s),
             nread := Suc (nread s + k)\<rparr>)"
  (is "?L \<longleftrightarrow> ?R")
proof
  assume L: ?L
  then obtain k0 where "read_ret BLOCK_SIZE (reads e (nread s + k0)) \<le> 0"
    using copy_loop_returns by blast
  then obtain k where k: "\<forall>j<k. 0 < read_ret BLOCK_SIZE (reads e (nread s + j))"
      "read_ret BLOCK_SIZE (reads e (nread s + k)) \<le> 0"
    using first_nonpositive [of "\<lambda>i. read_ret BLOCK_SIZE (reads e i)" "nread s" k0] by blast
  from copy_loop_run [OF k, of src dest pid buffer] L k show ?R
    by (intro exI [of _ k]) simp
next
  assume ?R
  then obtain k where k: "\<forall>j<k. 0 < read_ret BLOCK_SIZE (reads e (nread s + j))"
      "read_ret BLOCK_SIZE (reads e (nread s + k)) \<le> 0"
    and r: "r = read_ret BLOCK_SIZE (reads e (nread s + k))"
    and s': "s' = s\<lparr>trace := trace s @ concat (map (block_events e src dest pid) [nread s..<nread s + k])
                     @ [ERead src BLOCK_SIZE (read_ret BLOCK_SIZE (reads e (nread s + k)))],
             errno := (case reads e (nread s + k) of ReadError en \<Rightarrow> en | ReadData d \<Rightarrow> errno s),
             nread := Suc (nread s + k)\<rparr>"
    by blast
  show ?L unfolding r s' by (rule copy_loop_run [OF k])
qed

lemma copy_loop_never:
  "(\<forall>j. 0 < read_ret BLOCK_SIZE (reads e (nread s + j))) \<Longrightarrow>
     copy_loop e src dest pid buffer s = None"
  using copy_loop_returns [of e src dest pid buffer s]
  by (cases "copy_loop e src dest pid buffer s") (auto simp: not_le [symmetric])

lemma read_ret_zero_iff: "read_ret BLOCK_SIZE out = 0 \<longleftrightarrow> out = ReadData []"
  by (cases out) (auto simp add: read_ret_def BLOCK_SIZE_def min_def)

lemma read_ret_neg_iff: "read_ret BLOCK_SIZE out = - 1 \<longleftrightarrow> (\<exists>en. out = ReadError en)"
  by (cases out) (simp_all add: read_ret_def)

lemma read_ret_nonpos: "read_ret BLOCK_SIZE out \<le> 0 \<Longrightarrow> read_ret BLOCK_SIZE out = 0 \<or> read_ret BLOCK_SIZE out = - 1"
  by (cases out) (simp_all add: read_ret_def)

lemma copy_SomeD:
  assumes "copy e src dest pid s = Some (r, s')"
  obtains k where "\<forall>j<k. 0 < read_ret BLOCK_SIZE (reads e (nread s + j))"
    and "read_ret BLOCK_SIZE (reads e (nread s + k)) \<le> 0"
    and "r = read_ret BLOCK_SIZE (reads e (nread s + k))"
    and "s' = s\<lparr>trace := trace s @ concat (map (block_events e src dest pid) [nread s..<nread s + k])
                     @ [ERead src BLOCK_SIZE (read_ret BLOCK_SIZE (reads e (nread s + k)))],
             errno := (case reads e (nread s + k) of ReadError en \<Rightarrow> en | ReadData d \<Rightarrow> errno s),
             nread := Suc (nread s + k)\<rparr>"
  using assms unfolding copy_def copy_loop_Some_iff by blast

lemma copy_nonneg_iff:
  "(\<exists>r s'. copy e src dest pid s = Some (r, s') \<and> 0 \<le> r) \<longleftrightarrow>
   (\<exists>k. (\<forall>j<k. 0 < read_ret BLOCK_SIZE (reads e (nread s + j))) \<and>
        read_ret BLOCK_SIZE (reads e (nread s + k)) = 0)"
  (is "?L \<longleftrightarrow> ?R")
proof
  assume ?L
  then obtain r s' where c: "copy e src dest pid s = Some (r, s')" and r: "0 \<le> r" by blast
  from c show ?R
  proof (rule copy_SomeD)
    fix k
    assume "\<forall>j<k. 0 < read_ret BLOCK_SIZE (reads e (nread s + j))"
      and "read_ret BLOCK_SIZE (reads e (nread s + k)) \<le> 0"
      and "r = read_ret BLOCK_SIZE (reads e (nread s + k))"
    with r show ?R by (intro exI [of _ k]) simp
  qed
next
  assume ?R
  then obtain k where "\<forall>j<k. 0 < read_ret BLOCK_SIZE (reads e (nread s + j))"
    and z: "read_ret BLOCK_SIZE (reads e (nread s + k)) = 0"
    by blast
  from copy_loop_run [OF this(1), of src dest pid "stack_garbage e"] z
  show ?L by (simp add: copy_def)
qed

subsection \<open>The blocks of \<open>main\<close>\<close>

lemma main_child_1:
  assumes "pipe_ret e = 0" and "fork1_ret e = 0"
  shows "main e = child_1_block e
           \<lparr>trace = [EPipe 0 (fd0 e) (fd1 e), EFork 0], errno = 0, nread = 0, nwait = 0\<rparr>"
  using assms by (simp add: main_def sys_pipe_def sys_fork_def emit_def proc_init_def)

lemma main_child_2:
  assumes "pipe_ret e = 0" and "0 < fork1_ret e" and "fork2_ret e = 0"
  shows "main e = child_2_block e
           \<lparr>trace = [EPipe 0 (fd0 e) (fd1 e), EFork (fork1_ret e), EFork 0],
            errno = 0, nread = 0, nwait = 0\<rparr>"
  using assms by (simp add: main_def sys_pipe_def sys_fork_def emit_def proc_init_def)

lemma main_fork1_fails:
  assumes "pipe_ret e = 0" and "fork1_ret e < 0"
  shows "main e = child_2_block e
           \<lparr>trace = [EPipe 0 (fd0 e) (fd1 e), EFork (fork1_ret e)],
            errno = 0, nread = 0, nwait = 0\<rparr>"
  using assms by (simp add: main_def sys_pipe_def sys_fork_def emit_def proc_init_def)

lemma child_1_block_open_fails:
  assumes "open_ret e < 0"
  shows "child_1_block e s =
     Some (1, s\<lparr>trace := trace s @
                   [EClose (fd0 e), EOpen (argv1 e) O_RDONLY (open_ret e),
                    EStdout (MsgOpenSrcFailed (argv1 e) (open_errno e)), EClose (fd1 e)],
                 errno := open_errno e\<rparr>)"
  using assms
  by (cases s) (simp add: child_1_block_def sys_open_def sys_close_def printf_def emit_def)

lemma child_2_block_open_fails:
  assumes "open_ret e < 0"
  shows "child_2_block e s =
     Some (1, s\<lparr>trace := trace s @
                   [EClose (fd1 e), EOpen (argv2 e) (O_WRONLY_CREAT_TRUNC dest_mode) (open_ret e),
                    EStdout (MsgOpenDestFailed (argv2 e) (open_errno e)), EClose (fd0 e)],
                 errno := open_errno e\<rparr>)"
  using assms
  by (cases s) (simp add: child_2_block_def sys_open_def sys_close_def printf_def emit_def)

lemma child_1_block_copy:
  assumes "0 \<le> open_ret e"
  shows "child_1_block e s =
     (case copy e (open_ret e) (fd1 e) 1
             (s\<lparr>trace := trace s @ [EClose (fd0 e), EOpen (argv1 e) O_RDONLY (open_ret e)]\<rparr>) of
        None \<Rightarrow> None
      | Some (r, s') \<Rightarrow>
          Some (if r < 0 then 2 else 0,
                s'\<lparr>trace := trace s' @
                       (if r < 0 then [EStdout (MsgCopyFailed (errno s'))] else []) @
                       [EClose (open_ret e), EClose (fd1 e)]\<rparr>))"
  using assms
  by (cases s)
     (auto simp add: child_1_block_def sys_open_def sys_close_def printf_def emit_def
       split: option.split)

lemma child_2_block_copy:
  assumes "0 \<le> open_ret e"
  shows "child_2_block e s =
     (case copy e (fd0 e) (open_ret e) 2
             (s\<lparr>trace := trace s @
                  [EClose (fd1 e),
                   EOpen (argv2 e) (O_WRONLY_CREAT_TRUNC dest_mode) (open_ret e)]\<rparr>) of
        None \<Rightarrow> None
      | Some (r, s') \<Rightarrow>
          Some (if r < 0 then 2 else 0,
                s'\<lparr>trace := trace s' @
                       (if r < 0 then [EStdout (MsgCopyFailed (errno s'))] else []) @
                       [EClose (open_ret e), EClose (fd0 e)]\<rparr>))"
  using assms
  by (cases s)
     (auto simp add: child_2_block_def sys_open_def sys_close_def printf_def emit_def
       split: option.split)

subsection \<open>Descriptor tables\<close>

lemma fd_step_blocks: "foldl fd_step t (concat (map (block_events e src dest pid) js)) = t"
  by (induction js arbitrary: t) simp_all

lemma copy_fds:
  assumes "copy e src dest pid s = Some (r, s')"
  shows "fds_after (trace s' @ ys) = foldl fd_step (fds_after (trace s)) ys"
proof -
  from assms obtain k where
    "s' = s\<lparr>trace := trace s @ concat (map (block_events e src dest pid) [nread s..<nread s + k])
                     @ [ERead src BLOCK_SIZE (read_ret BLOCK_SIZE (reads e (nread s + k)))],
             errno := (case reads e (nread s + k) of ReadError en \<Rightarrow> en | ReadData d \<Rightarrow> errno s),
             nread := Suc (nread s + k)\<rparr>"
    by (rule copy_SomeD)
  then show ?thesis
    by (simp add: fds_after_def fd_step_blocks)
qed

lemma fd_step_no_new_pipe_end:
  assumes "ob = PipeRead \<or> ob = PipeWrite"
    and "\<forall>r a b. ev \<noteq> EPipe r a b"
    and "ob \<notin> snd ` set t"
  shows "ob \<notin> snd ` set (fd_step t ev)"
  using assms by (cases ev) (auto simp: fd_clear_def)

lemma foldl_no_new_pipe_end:
  assumes "ob = PipeRead \<or> ob = PipeWrite"
    and "\<forall>ev \<in> set xs. \<forall>r a b. ev \<noteq> EPipe r a b"
    and "ob \<notin> snd ` set t"
  shows "ob \<notin> snd ` set (foldl fd_step t xs)"
  using assms(2,3)
proof (induction xs arbitrary: t)
  case Nil
  then show ?case by simp
next
  case (Cons ev xs)
  have "ob \<notin> snd ` set (fd_step t ev)"
    using assms(1) Cons.prems by (intro fd_step_no_new_pipe_end) simp_all
  with Cons show ?case by simp
qed

lemma not_holds_from_prefix:
  assumes "ob = PipeRead \<or> ob = PipeWrite"
    and "\<not> holds pre ob"
    and "\<forall>ev \<in> set rest. \<forall>r a b. ev \<noteq> EPipe r a b"
    and "length pre \<le> n"
  shows "\<not> holds (take n (pre @ rest)) ob"
proof -
  have "\<forall>ev \<in> set (take (n - length pre) rest). \<forall>r a b. ev \<noteq> EPipe r a b"
    using assms(3) by (meson in_set_takeD)
  from foldl_no_new_pipe_end [OF assms(1) this, of "fds_after pre"] assms(2,4)
  show ?thesis
    by (simp add: holds_def fds_after_def)
qed

lemma copy_trace_no_pipe:
  assumes "copy e src dest pid s = Some (r, s')"
  shows "\<exists>xs. trace s' = trace s @ xs \<and> (\<forall>ev \<in> set xs. \<forall>r a b. ev \<noteq> EPipe r a b)"
proof -
  from assms obtain k where
    "s' = s\<lparr>trace := trace s @ concat (map (block_events e src dest pid) [nread s..<nread s + k])
                     @ [ERead src BLOCK_SIZE (read_ret BLOCK_SIZE (reads e (nread s + k)))],
             errno := (case reads e (nread s + k) of ReadError en \<Rightarrow> en | ReadData d \<Rightarrow> errno s),
             nread := Suc (nread s + k)\<rparr>"
    by (rule copy_SomeD)
  then have "trace s' = trace s @ (concat (map (block_events e src dest pid) [nread s..<nread s + k])
                     @ [ERead src BLOCK_SIZE (read_ret BLOCK_SIZE (reads e (nread s + k)))])"
    by simp
  moreover have "\<forall>ev \<in> set (concat (map (block_events e src dest pid) [nread s..<nread s + k])
                     @ [ERead src BLOCK_SIZE (read_ret BLOCK_SIZE (reads e (nread s + k)))]).
                  \<forall>r a b. ev \<noteq> EPipe r a b"
    by auto
  ultimately show ?thesis by blast
qed

lemma reader_trace_shape:
  assumes "pipe_ret e = 0" and "fork1_ret e = 0" and "main e = Some (c, s)"
  shows "\<exists>rest. trace s = [EPipe 0 (fd0 e) (fd1 e), EFork 0, EClose (fd0 e)] @ rest \<and>
           (\<forall>ev \<in> set rest. \<forall>r a b. ev \<noteq> EPipe r a b)"
proof (cases "open_ret e < 0")
  case True
  with assms show ?thesis
    by (auto simp add: main_child_1 child_1_block_open_fails)
next
  case False
  then have o: "0 \<le> open_ret e" by simp
  from assms obtain r s' where c: "copy e (open_ret e) (fd1 e) 1 (reader_at_copy e) = Some (r, s')"
    and s: "s = s'\<lparr>trace := trace s' @
                       (if r < 0 then [EStdout (MsgCopyFailed (errno s'))] else []) @
                       [EClose (open_ret e), EClose (fd1 e)]\<rparr>"
    by (auto simp add: main_child_1 child_1_block_copy [OF o] split: option.splits)
  from copy_trace_no_pipe [OF c] obtain xs where
    xs: "trace s' = trace (reader_at_copy e) @ xs" "\<forall>ev \<in> set xs. \<forall>r a b. ev \<noteq> EPipe r a b"
    by blast
  show ?thesis
    using xs unfolding s by auto
qed

lemma writer_trace_shape:
  assumes "pipe_ret e = 0" and "0 < fork1_ret e" and "fork2_ret e = 0" and "main e = Some (c, s)"
  shows "\<exists>rest. trace s = [EPipe 0 (fd0 e) (fd1 e), EFork (fork1_ret e), EFork 0, EClose (fd1 e)]
                          @ rest \<and>
           (\<forall>ev \<in> set rest. \<forall>r a b. ev \<noteq> EPipe r a b)"
proof (cases "open_ret e < 0")
  case True
  with assms show ?thesis
    by (auto simp add: main_child_2 child_2_block_open_fails)
next
  case False
  then have o: "0 \<le> open_ret e" by simp
  from assms obtain r s' where c: "copy e (fd0 e) (open_ret e) 2 (writer_at_copy e) = Some (r, s')"
    and s: "s = s'\<lparr>trace := trace s' @
                       (if r < 0 then [EStdout (MsgCopyFailed (errno s'))] else []) @
                       [EClose (open_ret e), EClose (fd0 e)]\<rparr>"
    by (auto simp add: main_child_2 child_2_block_copy [OF o] split: option.splits)
  from copy_trace_no_pipe [OF c] obtain xs where
    xs: "trace s' = trace (writer_at_copy e) @ xs" "\<forall>ev \<in> set xs. \<forall>r a b. ev \<noteq> EPipe r a b"
    by blast
  show ?thesis
    using xs unfolding s by auto
qed

subsection \<open>Progress notifications and a file read in full blocks\<close>

lemma progress_of_append: "progress_of (xs @ ys) = progress_of xs @ progress_of ys"
  by (induction xs rule: progress_of.induct) simp_all

lemma progress_of_blocks:
  "progress_of (concat (map (\<lambda>j. [ERead src n (f j), EStdout (MsgProgress pid (g j)),
                                   EWrite dest (h j)]) js)) =
     map (\<lambda>j. (pid, g j)) js"
  by (induction js) simp_all

lemma written_to_append: "written_to fd (xs @ ys) = written_to fd xs @ written_to fd ys"
  by (induction xs rule: written_to.induct) simp_all

lemma written_to_blocks:
  "written_to dest (concat (map (\<lambda>j. [ERead src n (f j), EStdout (MsgProgress pid (g j)),
                                       EWrite dest (h j)]) js)) =
     concat (map h js)"
  by (induction js) simp_all

lemma concat_chunks: "concat (map (\<lambda>j. take n (drop (j * n) xs)) [0..<k]) = take (k * n) xs"
proof (induction k)
  case 0
  show ?case by simp
next
  case (Suc k)
  have "concat (map (\<lambda>j. take n (drop (j * n) xs)) [0..<Suc k])
          = take (k * n) xs @ take n (drop (k * n) xs)"
    using Suc by simp
  also have "\<dots> = take (k * n + n) xs"
    by (simp add: take_add)
  also have "k * n + n = Suc k * n"
    by simp
  finally show ?case .
qed

lemma file_read_ret:
  "read_ret BLOCK_SIZE (file_reads content j) = int (min 1024 (length content - j * 1024))"
  by (simp add: read_ret_def file_reads_def BLOCK_SIZE_def min.commute)

lemma file_read_data:
  "read_data BLOCK_SIZE (file_reads content j) = take BLOCK_SIZE (drop (j * BLOCK_SIZE) content)"
  by (simp add: read_data_def file_reads_def)

lemma file_blocks_positive:
  "j < (length content + 1023) div 1024 \<Longrightarrow> 0 < read_ret BLOCK_SIZE (file_reads content j)"
  unfolding file_read_ret by simp

lemma file_blocks_end:
  "read_ret BLOCK_SIZE (file_reads content ((length content + 1023) div 1024)) = 0"
  unfolding file_read_ret by simp

lemma ceil_div_1024:
  "(N + 1023) div 1024 = (if N mod 1024 = 0 then N div 1024 else Suc (N div 1024))" for N :: nat
proof -
  define d m where "d = N div 1024" and "m = N mod 1024"
  have N: "N = 1024 * d + m" and m: "m < 1024"
    by (simp_all add: d_def m_def)
  have "(1024 * d + m + 1023) div 1024 = (if m = 0 then d else Suc d)"
  proof (cases m)
    case 0
    then show ?thesis by simp
  next
    case (Suc m')
    with m have "m' < 1023" by simp
    moreover have "1024 * d + m + 1023 = m' + 1024 * Suc d" using Suc by simp
    ultimately show ?thesis using Suc by (simp only: div_mult_self2) simp
  qed
  then show ?thesis
    unfolding d_def m_def by simp
qed

lemma file_last_block:
  "0 < N \<Longrightarrow> min 1024 (N - ((N + 1023) div 1024 - 1) * 1024)
     = (if N mod 1024 = 0 then 1024 else N mod 1024)" for N :: nat
proof -
  assume pos: "0 < N"
  define d m where "d = N div 1024" and "m = N mod 1024"
  have N: "N = 1024 * d + m" and m: "m < 1024"
    by (simp_all add: d_def m_def)
  have c: "(N + 1023) div 1024 = (if m = 0 then d else Suc d)"
    unfolding d_def m_def by (rule ceil_div_1024)
  show ?thesis
  proof (cases "m = 0")
    case True
    with pos N have "0 < d" by simp
    with True N c show ?thesis
      unfolding m_def [symmetric] by (cases d) simp_all
  next
    case False
    with N c m show ?thesis
      unfolding m_def [symmetric] by simp
  qed
qed

lemma ceil_div_1024_cover: "N \<le> (N + 1023) div 1024 * 1024" for N :: nat
proof -
  define d m where "d = N div 1024" and "m = N mod 1024"
  have "N = 1024 * d + m" and "m < 1024"
    by (simp_all add: d_def m_def)
  then have "N \<le> (if m = 0 then d else Suc d) * 1024"
    by simp
  then show ?thesis
    unfolding ceil_div_1024 d_def m_def .
qed

lemma file_chunks_all:
  "concat (map (\<lambda>j. read_data BLOCK_SIZE (file_reads content j))
       [0..<(length content + 1023) div 1024]) = content"
proof -
  have "length content \<le> (length content + 1023) div 1024 * BLOCK_SIZE"
    by (simp add: BLOCK_SIZE_def)
  then show ?thesis
    by (simp add: file_read_data concat_chunks)
qed

subsection \<open>Runs in concrete environments\<close>

lemma copy_three_bytes:
  assumes "reads e = file_reads [1, 2, 3]" and "nread s = 0"
  shows "copy e src dest pid s =
     Some (0, s\<lparr>trace := trace s @ [ERead src BLOCK_SIZE 3, EStdout (MsgProgress pid 3),
                                     EWrite dest [1, 2, 3], ERead src BLOCK_SIZE 0],
                 nread := 2\<rparr>)"
proof -
  have "\<forall>j<1. 0 < read_ret BLOCK_SIZE (reads e (nread s + j))"
    by (simp add: assms file_read_ret)
  moreover have "read_ret BLOCK_SIZE (reads e (nread s + 1)) \<le> 0"
    by (simp add: assms file_read_ret)
  ultimately show ?thesis
    unfolding copy_def
    by (subst copy_loop_run [where k = 1])
       (simp_all add: assms file_reads_def read_ret_def read_data_def BLOCK_SIZE_def)
qed

lemma copy_data_then_error:
  assumes "reads e = (\<lambda>k. if k = 0 then ReadData [1, 2, 3] else ReadError 5)"
  shows "copy e src dest pid proc_init =
     Some (- 1, \<lparr>trace = [ERead src BLOCK_SIZE 3, EStdout (MsgProgress pid 3),
                           EWrite dest [1, 2, 3], ERead src BLOCK_SIZE (- 1)],
                 errno = 5, nread = 2, nwait = 0\<rparr>)"
proof -
  have "\<forall>j<1. 0 < read_ret BLOCK_SIZE (reads e (nread proc_init + j))"
    by (simp add: assms read_ret_def BLOCK_SIZE_def proc_init_def)
  moreover have "read_ret BLOCK_SIZE (reads e (nread proc_init + 1)) \<le> 0"
    by (simp add: assms read_ret_def proc_init_def)
  ultimately show ?thesis
    unfolding copy_def
    by (subst copy_loop_run [where k = 1])
       (simp_all add: assms proc_init_def read_ret_def read_data_def BLOCK_SIZE_def)
qed

lemma main_reader_three_bytes:
  "main (example_env\<lparr>fork1_ret := 0, reads := file_reads [1, 2, 3]\<rparr>) =
     Some (0, \<lparr>trace = [EPipe 0 3 4, EFork 0, EClose 3, EOpen ''in'' O_RDONLY 3,
                         ERead 3 BLOCK_SIZE 3, EStdout (MsgProgress 1 3), EWrite 4 [1, 2, 3],
                         ERead 3 BLOCK_SIZE 0, EClose 3, EClose 4],
               errno = 0, nread = 2, nwait = 0\<rparr>)"
  by (subst main_child_1, simp add: example_env_def, simp add: example_env_def,
      subst child_1_block_copy, simp add: example_env_def, subst copy_three_bytes)
     (simp_all add: example_env_def)

lemma main_writer_eof:
  "main (example_env\<lparr>fork2_ret := 0, open_ret := 4\<rparr>) =
     Some (0, \<lparr>trace = [EPipe 0 3 4, EFork 100, EFork 0, EClose 4,
                         EOpen ''out'' (O_WRONLY_CREAT_TRUNC 436) 4,
                         ERead 3 BLOCK_SIZE 0, EClose 4, EClose 3],
               errno = 0, nread = 1, nwait = 0\<rparr>)"
  by (subst main_child_2, simp add: example_env_def, simp add: example_env_def,
      simp add: example_env_def, subst child_2_block_copy, simp add: example_env_def)
     (simp add: example_env_def copy_def copy_loop_stop read_ret_def dest_mode_def)

section \<open>The Supervisor\<close>

text \<open>
  Claim C5. If the first \<open>fork\<close> returns a child's pid and the second \<open>fork\<close> fails, the
  parent prints the line about the failed spawn and returns 1 at once: after the two
  calls of \<open>fork\<close> its only call is that \<open>printf\<close>; it closes nothing and never calls
  \<open>wait\<close>.
\<close>

theorem second_spawn_failure_exits_1_without_wait:
  assumes "pipe_ret e = 0" and "0 < fork1_ret e" and "fork2_ret e < 0"
  shows "main e =
     Some (1, \<lparr>trace = [EPipe 0 (fd0 e) (fd1 e), EFork (fork1_ret e), EFork (fork2_ret e),
                         EStdout MsgForkFailed],
               errno = 0, nread = 0, nwait = 0\<rparr>)"
  using assms
  by (simp add: main_def sys_pipe_def sys_fork_def printf_def emit_def proc_init_def)

theorem second_spawn_failure_witness:
  "pipe_ret (example_env\<lparr>fork2_ret := - 1\<rparr>) = 0 \<and>
   0 < fork1_ret (example_env\<lparr>fork2_ret := - 1\<rparr>) \<and>
   fork2_ret (example_env\<lparr>fork2_ret := - 1\<rparr>) < 0 \<and>
   main (example_env\<lparr>fork2_ret := - 1\<rparr>) =
     Some (1, \<lparr>trace = [EPipe 0 3 4, EFork 100, EFork (- 1), EStdout MsgForkFailed],
               errno = 0, nread = 0, nwait = 0\<rparr>)"
  using second_spawn_failure_exits_1_without_wait [of "example_env\<lparr>fork2_ret := - 1\<rparr>"]
  by (simp add: example_env_def)

text \<open>
  Claim C2. When both calls of \<open>fork\<close> return a child's pid, the parent waits twice and
  returns 0 if both exit statuses (\<open>WEXITSTATUS\<close> of what \<open>wait\<close> stored) are 0, and 2
  otherwise. Its last line is the aggregate line, and the success line is printed if and
  only if both exit statuses are 0 (otherwise the failure line is).
\<close>

theorem supervisor_exit_code_and_aggregate_line:
  assumes "pipe_ret e = 0" and "0 < fork1_ret e" and "0 < fork2_ret e"
  shows "\<exists>s. main e =
           Some (if WEXITSTATUS (snd (waits e 0)) = 0 \<and> WEXITSTATUS (snd (waits e 1)) = 0
                 then 0 else 2, s) \<and>
         last (trace s) =
           EStdout (if WEXITSTATUS (snd (waits e 0)) = 0 \<and> WEXITSTATUS (snd (waits e 1)) = 0
                    then MsgAllOK else MsgSomeFailed) \<and>
         (EStdout MsgAllOK \<in> set (trace s) \<longleftrightarrow>
            WEXITSTATUS (snd (waits e 0)) = 0 \<and> WEXITSTATUS (snd (waits e 1)) = 0) \<and>
         (EStdout MsgSomeFailed \<in> set (trace s) \<longleftrightarrow>
            \<not> (WEXITSTATUS (snd (waits e 0)) = 0 \<and> WEXITSTATUS (snd (waits e 1)) = 0)) \<and>
         nwait s = 2"
  by (subst main_parent [OF assms]) simp

theorem supervisor_exit_code_witness:
  "pipe_ret example_env = 0 \<and> 0 < fork1_ret example_env \<and> 0 < fork2_ret example_env \<and>
   (\<exists>s. main example_env = Some (2, s) \<and> last (trace s) = EStdout MsgSomeFailed \<and>
        EStdout MsgAllOK \<notin> set (trace s) \<and> EStdout MsgSomeFailed \<in> set (trace s)) \<and>
   (\<exists>s. main (example_env\<lparr>waits := \<lambda>k. (100 + int k, 0)\<rparr>) = Some (0, s) \<and>
        last (trace s) = EStdout MsgAllOK \<and>
        EStdout MsgAllOK \<in> set (trace s) \<and> EStdout MsgSomeFailed \<notin> set (trace s))"
  using supervisor_exit_code_and_aggregate_line [of example_env]
    supervisor_exit_code_and_aggregate_line [of "example_env\<lparr>waits := \<lambda>k. (100 + int k, 0)\<rparr>"]
  by (auto simp add: example_env_def WEXITSTATUS_def)

text \<open>
  Claim C9. The parent calls \<open>wait\<close> exactly twice. The ordinal in the line printed for
  a reaped child is 1 if the pid \<open>wait\<close> returned equals \<open>child_1\<close> and 2 otherwise,
  whatever the position of the record; the exit code does not change when the two
  records arrive in the other order.
\<close>

theorem supervisor_attributes_by_pid:
  assumes "pipe_ret e = 0" and "0 < fork1_ret e" and "0 < fork2_ret e"
  shows "\<exists>c s. main e = Some (c, s) \<and>
         [ev \<leftarrow> trace s. \<exists>p st. ev = EWait p st] =
           [EWait (fst (waits e 0)) (snd (waits e 0)), EWait (fst (waits e 1)) (snd (waits e 1))] \<and>
         [m. EStdout m \<leftarrow> trace s] =
           [if WEXITSTATUS (snd (waits e 0)) = 0
            then MsgChildOK (if fork1_ret e = fst (waits e 0) then 1 else 2)
            else MsgChildFailed (if fork1_ret e = fst (waits e 0) then 1 else 2)
                   (WEXITSTATUS (snd (waits e 0))),
            if WEXITSTATUS (snd (waits e 1)) = 0
            then MsgChildOK (if fork1_ret e = fst (waits e 1) then 1 else 2)
            else MsgChildFailed (if fork1_ret e = fst (waits e 1) then 1 else 2)
                   (WEXITSTATUS (snd (waits e 1))),
            if WEXITSTATUS (snd (waits e 0)) = 0 \<and> WEXITSTATUS (snd (waits e 1)) = 0
            then MsgAllOK else MsgSomeFailed] \<and>
         map_option fst (main (e\<lparr>waits := (waits e)(0 := waits e 1, 1 := waits e 0)\<rparr>)) = Some c"
proof -
  let ?e' = "e\<lparr>waits := (waits e)(0 := waits e 1, 1 := waits e 0)\<rparr>"
  have "pipe_ret ?e' = 0" "0 < fork1_ret ?e'" "0 < fork2_ret ?e'"
    using assms by simp_all
  note swapped = main_parent [OF this]
  show ?thesis
    by (subst main_parent [OF assms], subst swapped) auto
qed

theorem supervisor_attributes_by_pid_witness:
  "pipe_ret example_env = 0 \<and> 0 < fork1_ret example_env \<and> 0 < fork2_ret example_env \<and>
   (\<exists>s. main example_env = Some (2, s) \<and>
        [ev \<leftarrow> trace s. \<exists>p st. ev = EWait p st] = [EWait 101 0, EWait 100 512] \<and>
        [m. EStdout m \<leftarrow> trace s] = [MsgChildOK 2, MsgChildFailed 1 2, MsgSomeFailed]) \<and>
   map_option fst
     (main (example_env\<lparr>waits := (waits example_env)
                                    (0 := waits example_env 1, 1 := waits example_env 0)\<rparr>))
     = Some 2"
  using supervisor_attributes_by_pid [of example_env] main_parent [of example_env]
  by (auto simp add: example_env_def WEXITSTATUS_def)

text \<open>
  Claim C1 says that a failure of the first \<open>fork\<close> makes the program abort at once: no
  worker body runs, the failure is reported and the exit code is 1. The code does not do
  that. When the first \<open>fork\<close> fails, \<open>child_2\<close> still has its initial value 0, so the
  test \<open>child_2 == 0\<close> of line 120 holds in the parent itself: the parent runs the block
  written for child 2 and returns from inside it, and the error handling of line 148,
  which tests \<open>child_1 < 0\<close>, is never reached. In the environment below (the pipe is
  descriptors 3 and 4, the first \<open>fork\<close> returns \<open>-1\<close>, the destination opens as
  descriptor 4 and the pipe, which has no writer left, is at its end) the process closes
  the write end, opens and truncates the destination, reads the pipe, closes both
  descriptors and returns 0, without printing anything.
\<close>

theorem first_spawn_failure_runs_writer_block:
  "main (example_env\<lparr>fork1_ret := - 1, open_ret := 4\<rparr>) =
     Some (0, \<lparr>trace = [EPipe 0 3 4, EFork (- 1), EClose 4,
                         EOpen ''out'' (O_WRONLY_CREAT_TRUNC 436) 4,
                         ERead 3 BLOCK_SIZE 0, EClose 4, EClose 3],
               errno = 0, nread = 1, nwait = 0\<rparr>)"
proof -
  let ?e = "example_env\<lparr>fork1_ret := - 1, open_ret := 4\<rparr>"
  have "main ?e = child_2_block ?e
           \<lparr>trace = [EPipe 0 (fd0 ?e) (fd1 ?e), EFork (fork1_ret ?e)],
            errno = 0, nread = 0, nwait = 0\<rparr>"
    by (rule main_fork1_fails) (simp_all add: example_env_def)
  also have "\<dots> = Some (0, \<lparr>trace = [EPipe 0 3 4, EFork (- 1), EClose 4,
                         EOpen ''out'' (O_WRONLY_CREAT_TRUNC 436) 4,
                         ERead 3 BLOCK_SIZE 0, EClose 4, EClose 3],
               errno = 0, nread = 1, nwait = 0\<rparr>)"
    by (subst child_2_block_copy)
       (simp_all add: example_env_def copy_def copy_loop_stop read_ret_def dest_mode_def)
  finally show ?thesis .
qed

section \<open>The workers\<close>

text \<open>
  Claim C6. If \<open>open\<close> fails in a worker (child 1 opening the source, child 2 opening the
  destination), the worker prints the line naming the file and the \<open>errno\<close> of the
  failed \<open>open\<close>, closes its end of the pipe and returns 1; it then holds no descriptor
  of the pipe.
\<close>

theorem worker_open_failure_exits_1:
  assumes "pipe_ret e = 0" and "open_ret e < 0"
  shows "(fork1_ret e = 0 \<longrightarrow>
            main e = Some (1,
              \<lparr>trace = [EPipe 0 (fd0 e) (fd1 e), EFork 0, EClose (fd0 e),
                        EOpen (argv1 e) O_RDONLY (open_ret e),
                        EStdout (MsgOpenSrcFailed (argv1 e) (open_errno e)),
                        EClose (fd1 e)],
               errno = open_errno e, nread = 0, nwait = 0\<rparr>)) \<and>
         (0 < fork1_ret e \<and> fork2_ret e = 0 \<longrightarrow>
            main e = Some (1,
              \<lparr>trace = [EPipe 0 (fd0 e) (fd1 e), EFork (fork1_ret e), EFork 0, EClose (fd1 e),
                        EOpen (argv2 e) (O_WRONLY_CREAT_TRUNC dest_mode) (open_ret e),
                        EStdout (MsgOpenDestFailed (argv2 e) (open_errno e)),
                        EClose (fd0 e)],
               errno = open_errno e, nread = 0, nwait = 0\<rparr>)) \<and>
         (fork1_ret e = 0 \<or> 0 < fork1_ret e \<and> fork2_ret e = 0 \<longrightarrow>
            (\<exists>s. main e = Some (1, s) \<and> fds_after (trace s) = []))"
  using assms
  by (auto simp add: main_child_1 main_child_2 child_1_block_open_fails child_2_block_open_fails
      fds_after_def fd_clear_def)

theorem worker_open_failure_witness:
  "pipe_ret (example_env\<lparr>fork1_ret := 0, open_ret := - 1\<rparr>) = 0 \<and>
   open_ret (example_env\<lparr>fork1_ret := 0, open_ret := - 1\<rparr>) < 0 \<and>
   main (example_env\<lparr>fork1_ret := 0, open_ret := - 1\<rparr>) =
     Some (1, \<lparr>trace = [EPipe 0 3 4, EFork 0, EClose 3, EOpen ''in'' O_RDONLY (- 1),
                         EStdout (MsgOpenSrcFailed ''in'' 2), EClose 4],
               errno = 2, nread = 0, nwait = 0\<rparr>) \<and>
   main (example_env\<lparr>fork2_ret := 0, open_ret := - 1\<rparr>) =
     Some (1, \<lparr>trace = [EPipe 0 3 4, EFork 100, EFork 0, EClose 4,
                         EOpen ''out'' (O_WRONLY_CREAT_TRUNC 436) (- 1),
                         EStdout (MsgOpenDestFailed ''out'' 2), EClose 3],
               errno = 2, nread = 0, nwait = 0\<rparr>)"
  using worker_open_failure_exits_1 [of "example_env\<lparr>fork1_ret := 0, open_ret := - 1\<rparr>"]
    worker_open_failure_exits_1 [of "example_env\<lparr>fork2_ret := 0, open_ret := - 1\<rparr>"]
  by (simp add: example_env_def dest_mode_def)

text \<open>
  Claim C7. Once its file is open, a worker calls \<open>copy\<close>. If \<open>copy\<close> returns a negative
  value the worker prints the copy error, closes its file and its end of the pipe and
  returns 2; otherwise it closes both and returns 0. In both cases its descriptor table
  is empty when it returns.
\<close>

theorem worker_exit_after_copy:
  assumes "pipe_ret e = 0" and "0 \<le> open_ret e"
  shows "(fork1_ret e = 0 \<and> copy e (open_ret e) (fd1 e) 1 (reader_at_copy e) = Some (r, s') \<longrightarrow>
            main e = Some (if r < 0 then 2 else 0,
                           s'\<lparr>trace := trace s' @
                                (if r < 0 then [EStdout (MsgCopyFailed (errno s'))] else []) @
                                [EClose (open_ret e), EClose (fd1 e)]\<rparr>) \<and>
            fds_after (trace s' @
                       (if r < 0 then [EStdout (MsgCopyFailed (errno s'))] else []) @
                       [EClose (open_ret e), EClose (fd1 e)]) = []) \<and>
         (0 < fork1_ret e \<and> fork2_ret e = 0 \<and>
          copy e (fd0 e) (open_ret e) 2 (writer_at_copy e) = Some (r, s') \<longrightarrow>
            main e = Some (if r < 0 then 2 else 0,
                           s'\<lparr>trace := trace s' @
                                (if r < 0 then [EStdout (MsgCopyFailed (errno s'))] else []) @
                                [EClose (open_ret e), EClose (fd0 e)]\<rparr>) \<and>
            fds_after (trace s' @
                       (if r < 0 then [EStdout (MsgCopyFailed (errno s'))] else []) @
                       [EClose (open_ret e), EClose (fd0 e)]) = [])"
proof (intro conjI impI)
  assume a: "fork1_ret e = 0 \<and> copy e (open_ret e) (fd1 e) 1 (reader_at_copy e) = Some (r, s')"
  then show "main e = Some (if r < 0 then 2 else 0,
                           s'\<lparr>trace := trace s' @
                                (if r < 0 then [EStdout (MsgCopyFailed (errno s'))] else []) @
                                [EClose (open_ret e), EClose (fd1 e)]\<rparr>)"
    using assms by (simp add: main_child_1 child_1_block_copy)
  from a show "fds_after (trace s' @
                       (if r < 0 then [EStdout (MsgCopyFailed (errno s'))] else []) @
                       [EClose (open_ret e), EClose (fd1 e)]) = []"
    using assms(2) by (subst copy_fds) (auto simp add: fds_after_def fd_clear_def)
next
  assume a: "0 < fork1_ret e \<and> fork2_ret e = 0 \<and>
          copy e (fd0 e) (open_ret e) 2 (writer_at_copy e) = Some (r, s')"
  then show "main e = Some (if r < 0 then 2 else 0,
                           s'\<lparr>trace := trace s' @
                                (if r < 0 then [EStdout (MsgCopyFailed (errno s'))] else []) @
                                [EClose (open_ret e), EClose (fd0 e)]\<rparr>)"
    using assms by (simp add: main_child_2 child_2_block_copy)
  from a show "fds_after (trace s' @
                       (if r < 0 then [EStdout (MsgCopyFailed (errno s'))] else []) @
                       [EClose (open_ret e), EClose (fd0 e)]) = []"
    using assms(2) by (subst copy_fds) (auto simp add: fds_after_def fd_clear_def)
qed

theorem worker_exit_after_copy_witness:
  "main (example_env\<lparr>fork1_ret := 0\<rparr>) =
     Some (0, \<lparr>trace = [EPipe 0 3 4, EFork 0, EClose 3, EOpen ''in'' O_RDONLY 3,
                         ERead 3 BLOCK_SIZE 0, EClose 3, EClose 4],
               errno = 0, nread = 1, nwait = 0\<rparr>) \<and>
   main (example_env\<lparr>fork2_ret := 0, open_ret := 4, reads := \<lambda>k. ReadError 5\<rparr>) =
     Some (2, \<lparr>trace = [EPipe 0 3 4, EFork 100, EFork 0, EClose 4,
                         EOpen ''out'' (O_WRONLY_CREAT_TRUNC 436) 4,
                         ERead 3 BLOCK_SIZE (- 1), EStdout (MsgCopyFailed 5),
                         EClose 4, EClose 3],
               errno = 5, nread = 1, nwait = 0\<rparr>)"
proof -
  let ?e1 = "example_env\<lparr>fork1_ret := 0\<rparr>"
  let ?s1 = "\<lparr>trace = [EPipe 0 3 4, EFork 0, EClose 3, EOpen ''in'' O_RDONLY 3,
                       ERead 3 BLOCK_SIZE 0],
             errno = 0, nread = 1, nwait = 0\<rparr>"
  let ?e2 = "example_env\<lparr>fork2_ret := 0, open_ret := 4, reads := \<lambda>k. ReadError 5\<rparr>"
  let ?s2 = "\<lparr>trace = [EPipe 0 3 4, EFork 100, EFork 0, EClose 4,
                       EOpen ''out'' (O_WRONLY_CREAT_TRUNC 436) 4, ERead 3 BLOCK_SIZE (- 1)],
             errno = 5, nread = 1, nwait = 0\<rparr>"
  have c1: "copy ?e1 (open_ret ?e1) (fd1 ?e1) 1 (reader_at_copy ?e1) = Some (0, ?s1)"
    by (simp add: copy_def copy_loop_stop read_ret_def example_env_def)
  have c2: "copy ?e2 (fd0 ?e2) (open_ret ?e2) 2 (writer_at_copy ?e2) = Some (- 1, ?s2)"
    by (simp add: copy_def copy_loop_stop read_ret_def example_env_def dest_mode_def)
  have p1: "pipe_ret ?e1 = 0" "0 \<le> open_ret ?e1" "fork1_ret ?e1 = 0"
    by (simp_all add: example_env_def)
  have p2: "pipe_ret ?e2 = 0" "0 \<le> open_ret ?e2" "0 < fork1_ret ?e2" "fork2_ret ?e2 = 0"
    by (simp_all add: example_env_def)
  from worker_exit_after_copy [OF p1(1,2), of 0 ?s1] p1(3) c1
  have "main ?e1 = Some (0, ?s1\<lparr>trace := trace ?s1 @ [EClose (open_ret ?e1), EClose (fd1 ?e1)]\<rparr>)"
    by simp
  moreover from worker_exit_after_copy [OF p2(1,2), of "- 1" ?s2] p2(3,4) c2
  have "main ?e2 = Some (2, ?s2\<lparr>trace := trace ?s2 @ [EStdout (MsgCopyFailed (errno ?s2)),
                                     EClose (open_ret ?e2), EClose (fd0 ?e2)]\<rparr>)"
    by simp
  ultimately show ?thesis
    by (simp add: example_env_def)
qed

text \<open>
  Claim C8. In every run of \<open>main\<close> that returns: child 1 closes the read end of the
  pipe as its first call and from then on never holds a read end; child 2 closes the
  write end as its first call and from then on never holds a write end; the parent of
  two children closes both ends before its first \<open>wait\<close> and from then on holds neither.
  The statement is about each process on its own, at every point of its trace after
  the closing calls (so during its \<open>copy\<close>, respectively its waiting).
\<close>

theorem endpoint_discipline:
  assumes "pipe_ret e = 0" and "main e = Some (c, s)"
  shows "(fork1_ret e = 0 \<longrightarrow>
            take 3 (trace s) = [EPipe 0 (fd0 e) (fd1 e), EFork 0, EClose (fd0 e)] \<and>
            (\<forall>n\<ge>3. \<not> holds (take n (trace s)) PipeRead)) \<and>
         (0 < fork1_ret e \<and> fork2_ret e = 0 \<longrightarrow>
            take 4 (trace s) =
              [EPipe 0 (fd0 e) (fd1 e), EFork (fork1_ret e), EFork 0, EClose (fd1 e)] \<and>
            (\<forall>n\<ge>4. \<not> holds (take n (trace s)) PipeWrite)) \<and>
         (0 < fork1_ret e \<and> 0 < fork2_ret e \<longrightarrow>
            take 6 (trace s) =
              [EPipe 0 (fd0 e) (fd1 e), EFork (fork1_ret e), EFork (fork2_ret e),
               EClose (fd0 e), EClose (fd1 e), EWait (fst (waits e 0)) (snd (waits e 0))] \<and>
            (\<forall>n\<ge>5. \<not> holds (take n (trace s)) PipeRead \<and>
                    \<not> holds (take n (trace s)) PipeWrite))"
proof (intro conjI impI allI)
  assume r: "fork1_ret e = 0"
  from reader_trace_shape [OF assms(1) r assms(2)] obtain rest where
    t: "trace s = [EPipe 0 (fd0 e) (fd1 e), EFork 0, EClose (fd0 e)] @ rest"
    and np: "\<forall>ev \<in> set rest. \<forall>r a b. ev \<noteq> EPipe r a b"
    by blast
  show "take 3 (trace s) = [EPipe 0 (fd0 e) (fd1 e), EFork 0, EClose (fd0 e)]"
    by (simp add: t)
  have pre: "\<not> holds [EPipe 0 (fd0 e) (fd1 e), EFork 0, EClose (fd0 e)] PipeRead"
    by (auto simp add: holds_def fds_after_def fd_clear_def)
  fix n :: nat
  assume "3 \<le> n"
  then show "\<not> holds (take n (trace s)) PipeRead"
    unfolding t by (intro not_holds_from_prefix pre np) simp_all
next
  assume w: "0 < fork1_ret e \<and> fork2_ret e = 0"
  from writer_trace_shape [OF assms(1) _ _ assms(2)] w obtain rest where
    t: "trace s = [EPipe 0 (fd0 e) (fd1 e), EFork (fork1_ret e), EFork 0, EClose (fd1 e)] @ rest"
    and np: "\<forall>ev \<in> set rest. \<forall>r a b. ev \<noteq> EPipe r a b"
    by blast
  show "take 4 (trace s) = [EPipe 0 (fd0 e) (fd1 e), EFork (fork1_ret e), EFork 0, EClose (fd1 e)]"
    by (simp add: t)
  have pre: "\<not> holds [EPipe 0 (fd0 e) (fd1 e), EFork (fork1_ret e), EFork 0, EClose (fd1 e)]
               PipeWrite"
    by (auto simp add: holds_def fds_after_def fd_clear_def)
  fix n :: nat
  assume "4 \<le> n"
  then show "\<not> holds (take n (trace s)) PipeWrite"
    unfolding t by (intro not_holds_from_prefix pre np) simp_all
next
  assume p: "0 < fork1_ret e \<and> 0 < fork2_ret e"
  let ?pre = "[EPipe 0 (fd0 e) (fd1 e), EFork (fork1_ret e), EFork (fork2_ret e),
               EClose (fd0 e), EClose (fd1 e)]"
  let ?rest = "[EWait (fst (waits e 0)) (snd (waits e 0)),
           EStdout (child_line (fork1_ret e) (waits e 0)),
           EWait (fst (waits e 1)) (snd (waits e 1)),
           EStdout (child_line (fork1_ret e) (waits e 1)),
           EStdout (if WEXITSTATUS (snd (waits e 0)) = 0 \<and> WEXITSTATUS (snd (waits e 1)) = 0
                    then MsgAllOK else MsgSomeFailed)]"
  from main_parent [OF assms(1)] p assms(2) have t: "trace s = ?pre @ ?rest"
    by auto
  show "take 6 (trace s) =
              [EPipe 0 (fd0 e) (fd1 e), EFork (fork1_ret e), EFork (fork2_ret e),
               EClose (fd0 e), EClose (fd1 e), EWait (fst (waits e 0)) (snd (waits e 0))]"
    by (simp add: t)
  have np: "\<forall>ev \<in> set ?rest. \<forall>r a b. ev \<noteq> EPipe r a b"
    by simp
  have pre: "\<not> holds ?pre PipeRead" "\<not> holds ?pre PipeWrite"
    by (auto simp add: holds_def fds_after_def fd_clear_def)
  fix n :: nat
  assume n: "5 \<le> n"
  show "\<not> holds (take n (trace s)) PipeRead"
    using n unfolding t by (intro not_holds_from_prefix pre np) simp_all
  show "\<not> holds (take n (trace s)) PipeWrite"
    using n unfolding t by (intro not_holds_from_prefix pre np) simp_all
qed

theorem endpoint_discipline_witness:
  "(\<exists>c s. main (example_env\<lparr>fork1_ret := 0, reads := file_reads [1, 2, 3]\<rparr>) = Some (c, s) \<and>
          take 3 (trace s) = [EPipe 0 3 4, EFork 0, EClose 3] \<and>
          \<not> holds (take 6 (trace s)) PipeRead \<and> \<not> holds (trace s) PipeRead) \<and>
   (\<exists>c s. main (example_env\<lparr>fork2_ret := 0, open_ret := 4\<rparr>) = Some (c, s) \<and>
          take 4 (trace s) = [EPipe 0 3 4, EFork 100, EFork 0, EClose 4] \<and>
          \<not> holds (take 6 (trace s)) PipeWrite \<and> \<not> holds (trace s) PipeWrite) \<and>
   (\<exists>c s. main example_env = Some (c, s) \<and>
          take 6 (trace s) = [EPipe 0 3 4, EFork 100, EFork 101, EClose 3, EClose 4, EWait 101 0] \<and>
          \<not> holds (take 6 (trace s)) PipeRead \<and> \<not> holds (take 6 (trace s)) PipeWrite)"
proof (intro conjI)
  let ?e = "example_env\<lparr>fork1_ret := 0, reads := file_reads [1, 2, 3]\<rparr>"
  obtain c s where m: "main ?e = Some (c, s)"
    using main_reader_three_bytes by blast
  have l: "length (trace s) = 10"
    using m by (auto simp add: main_reader_three_bytes)
  from endpoint_discipline [of ?e c s] m
  have "take 3 (trace s) = [EPipe 0 3 4, EFork 0, EClose 3]"
    and "\<forall>n\<ge>3. \<not> holds (take n (trace s)) PipeRead"
    by (simp_all add: example_env_def)
  moreover from this(2) have "\<not> holds (take 6 (trace s)) PipeRead"
    and "\<not> holds (take 10 (trace s)) PipeRead"
    by simp_all
  ultimately show "\<exists>c s. main ?e = Some (c, s) \<and>
          take 3 (trace s) = [EPipe 0 3 4, EFork 0, EClose 3] \<and>
          \<not> holds (take 6 (trace s)) PipeRead \<and> \<not> holds (trace s) PipeRead"
    using m l by auto
next
  let ?e = "example_env\<lparr>fork2_ret := 0, open_ret := 4\<rparr>"
  obtain c s where m: "main ?e = Some (c, s)"
    using main_writer_eof by blast
  have l: "length (trace s) = 8"
    using m by (auto simp add: main_writer_eof)
  from endpoint_discipline [of ?e c s] m
  have "take 4 (trace s) = [EPipe 0 3 4, EFork 100, EFork 0, EClose 4]"
    and "\<forall>n\<ge>4. \<not> holds (take n (trace s)) PipeWrite"
    by (simp_all add: example_env_def)
  moreover from this(2) have "\<not> holds (take 6 (trace s)) PipeWrite"
    and "\<not> holds (take 8 (trace s)) PipeWrite"
    by simp_all
  ultimately show "\<exists>c s. main ?e = Some (c, s) \<and>
          take 4 (trace s) = [EPipe 0 3 4, EFork 100, EFork 0, EClose 4] \<and>
          \<not> holds (take 6 (trace s)) PipeWrite \<and> \<not> holds (trace s) PipeWrite"
    using m l by auto
next
  have "pipe_ret example_env = 0" "0 < fork1_ret example_env" "0 < fork2_ret example_env"
    by (simp_all add: example_env_def)
  from main_parent [OF this] obtain c s where m: "main example_env = Some (c, s)"
    by blast
  from endpoint_discipline [of example_env c s] m
  have "take 6 (trace s) = [EPipe 0 3 4, EFork 100, EFork 101, EClose 3, EClose 4, EWait 101 0]"
    and "\<forall>n\<ge>5. \<not> holds (take n (trace s)) PipeRead \<and> \<not> holds (take n (trace s)) PipeWrite"
    by (simp_all add: example_env_def)
  moreover from this(2) have "\<not> holds (take 6 (trace s)) PipeRead \<and> \<not> holds (take 6 (trace s)) PipeWrite"
    by simp
  ultimately show "\<exists>c s. main example_env = Some (c, s) \<and>
          take 6 (trace s) = [EPipe 0 3 4, EFork 100, EFork 101, EClose 3, EClose 4, EWait 101 0] \<and>
          \<not> holds (take 6 (trace s)) PipeRead \<and> \<not> holds (take 6 (trace s)) PipeWrite"
    using m by blast
qed

section \<open>The copy loop\<close>

text \<open>
  Claim C3. \<open>copy\<close> returns if and only if some \<open>read\<close> returns a value that is not
  positive; it stops at the first such \<open>read\<close> and returns its value. So the result is 0
  exactly when that \<open>read\<close> returned zero bytes, and \<open>-1\<close> exactly when it failed; the
  failed (or empty) \<open>read\<close> is the last call \<open>copy\<close> makes: no \<open>write\<close> follows it.
\<close>

theorem copy_stops_at_first_nonpositive_read:
  "((\<exists>s'. copy e src dest pid s = Some (r, s')) \<longleftrightarrow>
      (\<exists>k. (\<forall>j<k. 0 < read_ret BLOCK_SIZE (reads e (nread s + j))) \<and>
           read_ret BLOCK_SIZE (reads e (nread s + k)) = r \<and> r \<le> 0)) \<and>
   (copy e src dest pid s = Some (r, s') \<longrightarrow>
      (r = 0 \<or> r = - 1) \<and>
      last (trace s') = ERead src BLOCK_SIZE r \<and>
      nread s < nread s' \<and>
      (r = 0 \<longleftrightarrow> reads e (nread s' - 1) = ReadData []) \<and>
      (r = - 1 \<longleftrightarrow> (\<exists>en. reads e (nread s' - 1) = ReadError en)) \<and>
      (\<forall>j. nread s \<le> j \<and> j < nread s' - 1 \<longrightarrow> 0 < read_ret BLOCK_SIZE (reads e j)))"
proof (intro conjI impI iffI)
  assume "\<exists>s'. copy e src dest pid s = Some (r, s')"
  then obtain s' where "copy e src dest pid s = Some (r, s')" ..
  then show "\<exists>k. (\<forall>j<k. 0 < read_ret BLOCK_SIZE (reads e (nread s + j))) \<and>
           read_ret BLOCK_SIZE (reads e (nread s + k)) = r \<and> r \<le> 0"
    by (elim copy_SomeD) blast
next
  assume "\<exists>k. (\<forall>j<k. 0 < read_ret BLOCK_SIZE (reads e (nread s + j))) \<and>
           read_ret BLOCK_SIZE (reads e (nread s + k)) = r \<and> r \<le> 0"
  then obtain k where "\<forall>j<k. 0 < read_ret BLOCK_SIZE (reads e (nread s + j))"
    and "read_ret BLOCK_SIZE (reads e (nread s + k)) \<le> 0"
    and "read_ret BLOCK_SIZE (reads e (nread s + k)) = r"
    by blast
  from copy_loop_run [OF this(1,2), of src dest pid "stack_garbage e"] this(3)
  show "\<exists>s'. copy e src dest pid s = Some (r, s')"
    by (simp add: copy_def)
next
  assume c: "copy e src dest pid s = Some (r, s')"
  from c obtain k where pos: "\<forall>j<k. 0 < read_ret BLOCK_SIZE (reads e (nread s + j))"
    and stop: "read_ret BLOCK_SIZE (reads e (nread s + k)) \<le> 0"
    and r: "r = read_ret BLOCK_SIZE (reads e (nread s + k))"
    and s': "s' = s\<lparr>trace := trace s @ concat (map (block_events e src dest pid) [nread s..<nread s + k])
                     @ [ERead src BLOCK_SIZE (read_ret BLOCK_SIZE (reads e (nread s + k)))],
             errno := (case reads e (nread s + k) of ReadError en \<Rightarrow> en | ReadData d \<Rightarrow> errno s),
             nread := Suc (nread s + k)\<rparr>"
    by (rule copy_SomeD)
  have n: "nread s' - 1 = nread s + k" by (simp add: s')
  show "r = 0 \<or> r = - 1" unfolding r using stop by (rule read_ret_nonpos)
  show "last (trace s') = ERead src BLOCK_SIZE r" by (simp add: s' r)
  show "nread s < nread s'" by (simp add: s')
  show "reads e (nread s' - 1) = ReadData []" if "r = 0"
    using that unfolding n r by (simp add: read_ret_zero_iff)
  show "r = 0" if "reads e (nread s' - 1) = ReadData []"
    using that unfolding n r by (simp add: read_ret_zero_iff)
  show "\<exists>en. reads e (nread s' - 1) = ReadError en" if "r = - 1"
    using that unfolding n r by (simp add: read_ret_neg_iff)
  show "r = - 1" if "\<exists>en. reads e (nread s' - 1) = ReadError en"
    using that unfolding n r by (simp add: read_ret_neg_iff)
  show "\<forall>j. nread s \<le> j \<and> j < nread s' - 1 \<longrightarrow> 0 < read_ret BLOCK_SIZE (reads e j)"
  proof (intro allI impI)
    fix j assume "nread s \<le> j \<and> j < nread s' - 1"
    then have "j - nread s < k" and "j = nread s + (j - nread s)" unfolding n by auto
    with pos show "0 < read_ret BLOCK_SIZE (reads e j)" by metis
  qed
qed

theorem copy_stops_witness:
  "(\<exists>s'. copy (example_env\<lparr>reads := file_reads [1, 2, 3]\<rparr>) 3 4 1 proc_init = Some (0, s') \<and>
         last (trace s') = ERead 3 BLOCK_SIZE 0 \<and>
         reads (example_env\<lparr>reads := file_reads [1, 2, 3]\<rparr>) (nread s' - 1) = ReadData []) \<and>
   (\<exists>s'. copy (example_env\<lparr>reads := \<lambda>k. if k = 0 then ReadData [1, 2, 3] else ReadError 5\<rparr>)
            3 4 1 proc_init = Some (- 1, s') \<and>
         last (trace s') = ERead 3 BLOCK_SIZE (- 1) \<and>
         reads (example_env\<lparr>reads := \<lambda>k. if k = 0 then ReadData [1, 2, 3] else ReadError 5\<rparr>)
           (nread s' - 1) = ReadError 5)"
proof (intro conjI)
  let ?e = "example_env\<lparr>reads := file_reads [1, 2, 3]\<rparr>"
  let ?s = "\<lparr>trace = [ERead 3 BLOCK_SIZE 3, EStdout (MsgProgress 1 3),
                      EWrite 4 [1, 2, 3], ERead 3 BLOCK_SIZE 0],
            errno = 0, nread = 2, nwait = 0\<rparr>"
  have c: "copy ?e 3 4 1 proc_init = Some (0, ?s)"
    by (subst copy_three_bytes) (simp_all add: proc_init_def)
  with copy_stops_at_first_nonpositive_read [of ?e 3 4 1 proc_init 0 ?s]
  show "\<exists>s'. copy ?e 3 4 1 proc_init = Some (0, s') \<and>
         last (trace s') = ERead 3 BLOCK_SIZE 0 \<and> reads ?e (nread s' - 1) = ReadData []"
    by (intro exI [of _ ?s]) simp
next
  let ?e = "example_env\<lparr>reads := \<lambda>k. if k = 0 then ReadData [1, 2, 3] else ReadError 5\<rparr>"
  let ?s = "\<lparr>trace = [ERead 3 BLOCK_SIZE 3, EStdout (MsgProgress 1 3),
                      EWrite 4 [1, 2, 3], ERead 3 BLOCK_SIZE (- 1)],
            errno = 5, nread = 2, nwait = 0\<rparr>"
  have c: "copy ?e 3 4 1 proc_init = Some (- 1, ?s)"
    by (rule copy_data_then_error) simp
  with copy_stops_at_first_nonpositive_read [of ?e 3 4 1 proc_init "- 1" ?s]
  show "\<exists>s'. copy ?e 3 4 1 proc_init = Some (- 1, s') \<and>
         last (trace s') = ERead 3 BLOCK_SIZE (- 1) \<and> reads ?e (nread s' - 1) = ReadError 5"
    by (intro exI [of _ ?s]) simp
qed

text \<open>
  Claim C4. For every \<open>read\<close> with a positive count \<open>copy\<close> prints one progress line
  with the tag and that count and hands exactly the bytes read to \<open>write\<close>. Hence, when
  child 1 reads a file of \<open>N\<close> bytes in full blocks, it prints \<open>\<lceil>N / 1024\<rceil>\<close> progress
  lines (none for an empty file), all tagged 1; the count of the last one is
  \<open>N mod 1024\<close>, or 1024 when that is 0; and the bytes written to the pipe are the file.
\<close>

theorem copy_blocks_and_reader_progress:
  "((\<forall>j<k. 0 < read_ret BLOCK_SIZE (reads e (nread s + j))) \<and>
    read_ret BLOCK_SIZE (reads e (nread s + k)) \<le> 0 \<longrightarrow>
      (\<exists>s'. copy e src dest pid s = Some (read_ret BLOCK_SIZE (reads e (nread s + k)), s') \<and>
            trace s' = trace s @
              concat (map (\<lambda>j. [ERead src BLOCK_SIZE (int (length (read_data BLOCK_SIZE (reads e j)))),
                                EStdout (MsgProgress pid
                                           (int (length (read_data BLOCK_SIZE (reads e j))))),
                                EWrite dest (read_data BLOCK_SIZE (reads e j))])
                        [nread s..<nread s + k]) @
              [ERead src BLOCK_SIZE (read_ret BLOCK_SIZE (reads e (nread s + k)))])) \<and>
   (pipe_ret e = 0 \<and> fork1_ret e = 0 \<and> 0 \<le> open_ret e \<and> reads e = file_reads content \<longrightarrow>
      (\<exists>s. main e = Some (0, s) \<and>
           length (progress_of (trace s)) = (length content + 1023) div 1024 \<and>
           (\<forall>p \<in> set (progress_of (trace s)). fst p = 1) \<and>
           (content \<noteq> [] \<longrightarrow>
              snd (last (progress_of (trace s))) =
                (if length content mod 1024 = 0 then 1024 else int (length content mod 1024))) \<and>
           written_to (fd1 e) (trace s) = content))"
proof (intro conjI impI)
  assume a: "(\<forall>j<k. 0 < read_ret BLOCK_SIZE (reads e (nread s + j))) \<and>
    read_ret BLOCK_SIZE (reads e (nread s + k)) \<le> 0"
  have "block_events e src dest pid j =
          [ERead src BLOCK_SIZE (int (length (read_data BLOCK_SIZE (reads e j)))),
           EStdout (MsgProgress pid (int (length (read_data BLOCK_SIZE (reads e j))))),
           EWrite dest (read_data BLOCK_SIZE (reads e j))]"
    if "j \<in> set [nread s..<nread s + k]" for j
  proof -
    from that have "j - nread s < k" and "j = nread s + (j - nread s)" by auto
    with a have "0 < read_ret BLOCK_SIZE (reads e j)" by metis
    then show ?thesis by (simp add: read_ret_data)
  qed
  then have "map (block_events e src dest pid) [nread s..<nread s + k] =
      map (\<lambda>j. [ERead src BLOCK_SIZE (int (length (read_data BLOCK_SIZE (reads e j)))),
                EStdout (MsgProgress pid (int (length (read_data BLOCK_SIZE (reads e j))))),
                EWrite dest (read_data BLOCK_SIZE (reads e j))]) [nread s..<nread s + k]"
    by (intro map_cong refl)
  with copy_loop_run [of k e s src dest pid "stack_garbage e"] a
  show "\<exists>s'. copy e src dest pid s = Some (read_ret BLOCK_SIZE (reads e (nread s + k)), s') \<and>
            trace s' = trace s @
              concat (map (\<lambda>j. [ERead src BLOCK_SIZE (int (length (read_data BLOCK_SIZE (reads e j)))),
                                EStdout (MsgProgress pid
                                           (int (length (read_data BLOCK_SIZE (reads e j))))),
                                EWrite dest (read_data BLOCK_SIZE (reads e j))])
                        [nread s..<nread s + k]) @
              [ERead src BLOCK_SIZE (read_ret BLOCK_SIZE (reads e (nread s + k)))]"
    by (simp add: copy_def)
next
  assume a: "pipe_ret e = 0 \<and> fork1_ret e = 0 \<and> 0 \<le> open_ret e \<and> reads e = file_reads content"
  define K where "K = (length content + 1023) div 1024"
  let ?s0 = "reader_at_copy e"
  have pos: "\<forall>j<K. 0 < read_ret BLOCK_SIZE (reads e (nread ?s0 + j))"
    using a by (simp add: K_def file_blocks_positive)
  have stop: "read_ret BLOCK_SIZE (reads e (nread ?s0 + K)) = 0"
    using a by (simp add: K_def file_blocks_end)
  then have stop': "read_ret BLOCK_SIZE (reads e (nread ?s0 + K)) \<le> 0" by simp
  define T where "T = trace ?s0 @ concat (map (block_events e (open_ret e) (fd1 e) 1) [0..<K])
                     @ [ERead (open_ret e) BLOCK_SIZE 0, EClose (open_ret e), EClose (fd1 e)]"
  have m: "main e = Some (0, \<lparr>trace = T, errno = 0, nread = Suc K, nwait = 0\<rparr>)"
    using a copy_loop_run [OF pos stop', of "open_ret e" "fd1 e" 1 "stack_garbage e"] stop
    by (simp add: main_child_1 child_1_block_copy copy_def T_def file_reads_def)
  have p: "progress_of T = map (\<lambda>j. (1, read_ret BLOCK_SIZE (file_reads content j))) [0..<K]"
    using a by (simp add: T_def progress_of_append progress_of_blocks)
  have w: "written_to (fd1 e) T = content"
    using a by (simp add: T_def written_to_append written_to_blocks file_chunks_all K_def)
  have l: "snd (last (progress_of T)) =
             (if length content mod 1024 = 0 then 1024 else int (length content mod 1024))"
    if "content \<noteq> []"
  proof -
    from that have "0 < length content" by simp
    with ceil_div_1024_cover [of "length content"] have "0 < K"
      unfolding K_def by (cases "(length content + 1023) div 1024") simp_all
    then have "last (progress_of T) = (1, read_ret BLOCK_SIZE (file_reads content (K - 1)))"
      unfolding p by (simp add: last_map)
    with file_last_block [OF \<open>0 < length content\<close>] show ?thesis
      by (simp add: file_read_ret K_def)
  qed
  show "\<exists>s. main e = Some (0, s) \<and>
           length (progress_of (trace s)) = (length content + 1023) div 1024 \<and>
           (\<forall>p \<in> set (progress_of (trace s)). fst p = 1) \<and>
           (content \<noteq> [] \<longrightarrow>
              snd (last (progress_of (trace s))) =
                (if length content mod 1024 = 0 then 1024 else int (length content mod 1024))) \<and>
           written_to (fd1 e) (trace s) = content"
    using m w l by (auto simp add: p K_def)
qed

theorem copy_blocks_and_reader_progress_witness:
  "(\<exists>s'. copy (example_env\<lparr>fork1_ret := 0, reads := file_reads [1, 2, 3]\<rparr>) 3 4 1 proc_init =
           Some (0, s') \<and>
         trace s' = [ERead 3 BLOCK_SIZE 3, EStdout (MsgProgress 1 3), EWrite 4 [1, 2, 3],
                     ERead 3 BLOCK_SIZE 0]) \<and>
   (\<exists>s. main (example_env\<lparr>fork1_ret := 0, reads := file_reads [1, 2, 3]\<rparr>) = Some (0, s) \<and>
        progress_of (trace s) = [(1, 3)] \<and>
        length (progress_of (trace s)) = 1 \<and>
        snd (last (progress_of (trace s))) = 3 \<and>
        written_to 4 (trace s) = [1, 2, 3])"
proof -
  let ?e = "example_env\<lparr>fork1_ret := 0, reads := file_reads [1, 2, 3]\<rparr>"
  have h1: "(\<forall>j<1. 0 < read_ret BLOCK_SIZE (reads ?e (nread proc_init + j))) \<and>
            read_ret BLOCK_SIZE (reads ?e (nread proc_init + 1)) \<le> 0"
    by (simp add: file_read_ret proc_init_def)
  have h2: "pipe_ret ?e = 0 \<and> fork1_ret ?e = 0 \<and> 0 \<le> open_ret ?e \<and> reads ?e = file_reads [1, 2, 3]"
    by (simp add: example_env_def)
  note inst = copy_blocks_and_reader_progress [of 1 ?e proc_init 3 4 1 "[1, 2, 3]"]
  from inst h1 have "\<exists>s'. copy ?e 3 4 1 proc_init = Some (0, s') \<and>
         trace s' = [ERead 3 BLOCK_SIZE 3, EStdout (MsgProgress 1 3), EWrite 4 [1, 2, 3],
                     ERead 3 BLOCK_SIZE 0]"
    by (simp add: proc_init_def file_reads_def read_ret_def read_data_def BLOCK_SIZE_def)
  moreover from inst h2 obtain s where "main ?e = Some (0, s)"
    and "length (progress_of (trace s)) = 1" and "snd (last (progress_of (trace s))) = 3"
    and "written_to 4 (trace s) = [1, 2, 3]"
    by (auto simp add: example_env_def)
  moreover from this(1) have "progress_of (trace s) = [(1, 3)]"
    by (auto simp add: main_reader_three_bytes)
  ultimately show ?thesis by blast
qed

text \<open>
  Claim C10. The value \<open>copy\<close> returns is never positive: it is the result of the final
  \<open>read\<close>, not the size of a block copied, and it is 0 unless the final \<open>read\<close> failed.
  Hence a worker whose file opened returns 0 exactly when the first \<open>read\<close> that is not
  positive returned 0, however many blocks came before it.
\<close>

theorem copy_success_value_is_zero:
  "(copy e src dest pid s = Some (r, s') \<longrightarrow>
      r \<le> 0 \<and> ((\<forall>en. reads e (nread s' - 1) \<noteq> ReadError en) \<longrightarrow> r = 0)) \<and>
   (pipe_ret e = 0 \<and> 0 \<le> open_ret e \<and>
    (fork1_ret e = 0 \<or> 0 < fork1_ret e \<and> fork2_ret e = 0) \<longrightarrow>
      ((\<exists>s. main e = Some (0, s)) \<longleftrightarrow>
       (\<exists>k. (\<forall>j<k. 0 < read_ret BLOCK_SIZE (reads e j)) \<and>
            read_ret BLOCK_SIZE (reads e k) = 0)))"
proof (intro conjI impI)
  assume c: "copy e src dest pid s = Some (r, s')"
  then obtain k where stop: "read_ret BLOCK_SIZE (reads e (nread s + k)) \<le> 0"
    and r: "r = read_ret BLOCK_SIZE (reads e (nread s + k))"
    and s': "s' = s\<lparr>trace := trace s @ concat (map (block_events e src dest pid) [nread s..<nread s + k])
                     @ [ERead src BLOCK_SIZE (read_ret BLOCK_SIZE (reads e (nread s + k)))],
             errno := (case reads e (nread s + k) of ReadError en \<Rightarrow> en | ReadData d \<Rightarrow> errno s),
             nread := Suc (nread s + k)\<rparr>"
    by (rule copy_SomeD)
  show "r \<le> 0" unfolding r by (rule stop)
  have n: "nread s' - 1 = nread s + k" by (simp add: s')
  show "r = 0" if "\<forall>en. reads e (nread s' - 1) \<noteq> ReadError en"
    using that read_ret_nonpos [OF stop] unfolding n r by (simp add: read_ret_neg_iff)
next
  assume a: "pipe_ret e = 0 \<and> 0 \<le> open_ret e \<and>
    (fork1_ret e = 0 \<or> 0 < fork1_ret e \<and> fork2_ret e = 0)"
  then have o: "0 \<le> open_ret e" and p: "pipe_ret e = 0" by simp_all
  from a consider "fork1_ret e = 0" | "0 < fork1_ret e" "fork2_ret e = 0" by blast
  then show "(\<exists>s. main e = Some (0, s)) \<longleftrightarrow>
       (\<exists>k. (\<forall>j<k. 0 < read_ret BLOCK_SIZE (reads e j)) \<and>
            read_ret BLOCK_SIZE (reads e k) = 0)"
  proof cases
    case 1
    have "(\<exists>s. main e = Some (0, s)) \<longleftrightarrow>
          (\<exists>r s'. copy e (open_ret e) (fd1 e) 1 (reader_at_copy e) = Some (r, s') \<and> 0 \<le> r)"
      by (auto simp add: main_child_1 [OF p 1] child_1_block_copy [OF o] split: option.splits)
    with copy_nonneg_iff [of e "open_ret e" "fd1 e" 1 "reader_at_copy e"]
    show ?thesis by simp
  next
    case 2
    have "(\<exists>s. main e = Some (0, s)) \<longleftrightarrow>
          (\<exists>r s'. copy e (fd0 e) (open_ret e) 2 (writer_at_copy e) = Some (r, s') \<and> 0 \<le> r)"
      by (auto simp add: main_child_2 [OF p 2] child_2_block_copy [OF o] split: option.splits)
    with copy_nonneg_iff [of e "fd0 e" "open_ret e" 2 "writer_at_copy e"]
    show ?thesis by simp
  qed
qed

theorem copy_success_value_witness:
  "copy (example_env\<lparr>fork1_ret := 0, reads := file_reads [1, 2, 3]\<rparr>) 3 4 1 proc_init =
     Some (0, \<lparr>trace = [ERead 3 BLOCK_SIZE 3, EStdout (MsgProgress 1 3),
                         EWrite 4 [1, 2, 3], ERead 3 BLOCK_SIZE 0],
               errno = 0, nread = 2, nwait = 0\<rparr>) \<and>
   (\<exists>s. main (example_env\<lparr>fork1_ret := 0, reads := file_reads [1, 2, 3]\<rparr>) = Some (0, s)) \<and>
   0 < read_ret BLOCK_SIZE (reads (example_env\<lparr>fork1_ret := 0, reads := file_reads [1, 2, 3]\<rparr>) 0) \<and>
   read_ret BLOCK_SIZE (reads (example_env\<lparr>fork1_ret := 0, reads := file_reads [1, 2, 3]\<rparr>) 1) = 0"
proof -
  let ?e = "example_env\<lparr>fork1_ret := 0, reads := file_reads [1, 2, 3]\<rparr>"
  let ?s = "\<lparr>trace = [ERead 3 BLOCK_SIZE 3, EStdout (MsgProgress 1 3),
                      EWrite 4 [1, 2, 3], ERead 3 BLOCK_SIZE 0],
            errno = 0, nread = 2, nwait = 0\<rparr>"
  have c: "copy ?e 3 4 1 proc_init = Some (0, ?s)"
    by (subst copy_three_bytes) (simp_all add: proc_init_def)
  have r0: "0 < read_ret BLOCK_SIZE (reads ?e 0)" and r1: "read_ret BLOCK_SIZE (reads ?e 1) = 0"
    by (simp_all add: file_read_ret)
  then have "\<exists>k. (\<forall>j<k. 0 < read_ret BLOCK_SIZE (reads ?e j)) \<and> read_ret BLOCK_SIZE (reads ?e k) = 0"
    by (intro exI [of _ 1]) simp
  moreover have "pipe_ret ?e = 0 \<and> 0 \<le> open_ret ?e \<and>
      (fork1_ret ?e = 0 \<or> 0 < fork1_ret ?e \<and> fork2_ret ?e = 0)"
    by (simp add: example_env_def)
  ultimately have "\<exists>s. main ?e = Some (0, s)"
    using copy_success_value_is_zero [of ?e 3 4 1 proc_init 0 ?s] by blast
  with c r0 r1 show ?thesis by blast
qed

end
